theory Spec2Isabelle
  imports Main "HOL-Library.AList"
begin

section \<open>The metadata repository of \<^verbatim>\<open>src/repo_worker/tuf/repository.py\<close>\<close>

text \<open>
  The class \<^verbatim>\<open>MetadataRepository\<close> keeps the TUF role documents of a repository:
  it loads a document through a storage service, changes it in memory, bumps its
  version and expiry, signs it with the keys of a key vault and writes it back.
  The storage service, the key vault, the settings, the clock and the TUF library's
  hashing and parsing are collaborators outside the file; the model takes them as the
  fields of an environment record and makes every exception a value.
\<close>

subsection \<open>Python values\<close>

text \<open>The exceptions the methods can meet. Every one of them ends the method that
  meets it, except \<^verbatim>\<open>StorageError\<close> where a \<^verbatim>\<open>try\<close> catches it.\<close>

datatype error =
    StorageError
  | KeyError string
  | AttributeError
  | ValueError
  | OverflowError
  | UnsignedMetadataError
  | OtherError string

text \<open>\<^verbatim>\<open>str(n)\<close> and \<^verbatim>\<open>f"{n}"\<close> of a Python integer: decimal digits, a minus
  sign for a negative one.\<close>

definition digit_char :: "nat \<Rightarrow> char" where
  "digit_char d = ''0123456789abcdef'' ! d"

fun digits10 :: "nat \<Rightarrow> string" where
  "digits10 n = (if n < 10 then [digit_char n] else digits10 (n div 10) @ [digit_char (n mod 10)])"

declare digits10.simps [simp del]

definition str_int :: "int \<Rightarrow> string" where
  "str_int i = (if i < 0 then CHR ''-'' # digits10 (nat (- i)) else digits10 (nat i))"

text \<open>\<^verbatim>\<open>f"{i:0{w}x}"\<close>: lower-case hexadecimal, padded with zeros to width \<open>w\<close>.\<close>

fun digits16 :: "nat \<Rightarrow> string" where
  "digits16 n = (if n < 16 then [digit_char n] else digits16 (n div 16) @ [digit_char (n mod 16)])"

declare digits16.simps [simp del]

definition hex_pad :: "nat \<Rightarrow> nat \<Rightarrow> string" where
  "hex_pad w i = replicate (w - length (digits16 i)) CHR ''0'' @ digits16 i"

text \<open>\<^verbatim>\<open>s.startswith(p)\<close>.\<close>

fun startswith :: "string \<Rightarrow> string \<Rightarrow> bool" where
  "startswith s [] = True"
| "startswith [] (p # ps) = False"
| "startswith (c # cs) (p # ps) = (c = p \<and> startswith cs ps)"

subsection \<open>Dates and durations\<close>

text \<open>
  A naive \<^verbatim>\<open>datetime\<close> is the number of microseconds since 0001-01-01 00:00:00, a
  \<^verbatim>\<open>timedelta\<close> a number of microseconds. Python bounds both: a datetime lies in the
  years 1 to 9999, a timedelta within 999999999 days either way, and an operation
  that leaves the range raises \<^verbatim>\<open>OverflowError\<close>.
\<close>

type_synonym datetime = int
type_synonym timedelta = int

definition datetime_max :: datetime where
  "datetime_max = 3652059 * 86400000000 - 1"

definition timedelta_days :: "int \<Rightarrow> error + timedelta" where
  "timedelta_days d =
     (if - 999999999 \<le> d \<and> d \<le> 999999999 then Inr (d * 86400000000) else Inl OverflowError)"

definition timedelta_hours :: "int \<Rightarrow> error + timedelta" where
  "timedelta_hours h =
     (if - 999999999 * 86400000000 \<le> h * 3600000000 \<and> h * 3600000000 < 1000000000 * 86400000000
      then Inr (h * 3600000000) else Inl OverflowError)"

definition datetime_add :: "datetime \<Rightarrow> timedelta \<Rightarrow> error + datetime" where
  "datetime_add t d = (if 0 \<le> t + d \<and> t + d \<le> datetime_max then Inr (t + d) else Inl OverflowError)"

text \<open>\<^verbatim>\<open>t.replace(microsecond=0)\<close>.\<close>

definition replace_microsecond0 :: "datetime \<Rightarrow> datetime" where
  "replace_microsecond0 t = t - t mod 1000000"

subsection \<open>Role documents\<close>

text \<open>
  The classes of \<^verbatim>\<open>tuf.api.metadata\<close> as far as the repository reads and writes
  them. Python dictionaries keep insertion order, so they are association lists
  updated with \<^const>\<open>AList.update\<close>: an existing key keeps its place, a new key goes to
  the end.
\<close>

record MetaFile =
  mf_version :: int
  mf_length :: "int option"
  mf_hashes :: "(string \<times> string) list option"

record TargetFile =
  tf_path :: string
  tf_length :: int
  tf_hashes :: "(string \<times> string) list"

text \<open>An entry of the list \<^verbatim>\<open>add_targets\<close> receives: a dictionary with the keys
  \<^verbatim>\<open>path\<close> and \<^verbatim>\<open>info\<close>.\<close>

record target =
  t_path :: string
  t_info :: "int \<times> (string \<times> string) list"

record SuccinctRoles =
  bit_length :: nat
  name_prefix :: string

record Delegations =
  succinct_roles :: "SuccinctRoles option"

datatype RolePayload =
    Root
  | Timestamp MetaFile
  | Snapshot "(string \<times> MetaFile) list"
  | Targets "(string \<times> TargetFile) list" "Delegations option"

record Signed =
  version :: int
  expires :: datetime
  payload :: RolePayload

record Signature =
  sig_keyid :: string
  sig_value :: string

record Metadata =
  signed :: Signed
  signatures :: "(string \<times> Signature) list"

record key =
  key_id :: string
  key_material :: string

definition BIN :: string where "BIN = ''bin''"
definition BINS :: string where "BINS = ''bins''"
definition Timestamp_type :: string where "Timestamp_type = ''timestamp''"
definition Snapshot_type :: string where "Snapshot_type = ''snapshot''"

text \<open>\<^verbatim>\<open>MetaFile(version=v)\<close>: the constructor refuses a version below 1; length and
  hashes are left out.\<close>

definition MetaFile_new :: "int \<Rightarrow> error + MetaFile" where
  "MetaFile_new v =
     (if v \<le> 0 then Inl ValueError
      else Inr \<lparr>mf_version = v, mf_length = None, mf_hashes = None\<rparr>)"

text \<open>
  Python compares any two objects. \<^verbatim>\<open>MetaFile.__eq__\<close> answers \<^verbatim>\<open>False\<close> for an
  operand that is not a \<^verbatim>\<open>MetaFile\<close>, and an integer never equals an object of
  another class, so \<^verbatim>\<open>!=\<close> between a \<^verbatim>\<open>MetaFile\<close> and an integer is \<^verbatim>\<open>True\<close>.
\<close>

datatype pyobj = PyInt int | PyMetaFile MetaFile

definition py_ne :: "pyobj \<Rightarrow> pyobj \<Rightarrow> bool" where
  "py_ne a b = (a \<noteq> b)"

subsection \<open>The collaborators and the state\<close>

text \<open>
  What the storage service holds is the list of the files written, the latest write
  first; \<^verbatim>\<open>put\<close> adds a file, and \<^verbatim>\<open>get\<close>, which finds a role's latest document by
  the role's name, is the service's own business (\<open>storage_get\<close>). The clock is the
  sequence of the values \<^verbatim>\<open>datetime.now()\<close> returns, \<open>ticks\<close> counting the reads.

  The fields of the environment:
  \<^item> \<open>storage_get\<close>: what \<^verbatim>\<open>Metadata.from_file(role_name, None, storage)\<close> returns or raises,
    given the files written so far;
  \<^item> \<open>storage_put_error\<close>: the exception the storage service's \<^verbatim>\<open>put\<close> raises, if it
    raises, given the files written so far, the file name and the document;
  \<^item> \<open>keyvault_get\<close>: \<^verbatim>\<open>self._key_storage_backend.get(role_name)\<close>;
  \<^item> \<open>signer_sign\<close>: the signature \<^verbatim>\<open>SSlibSigner(key)\<close> makes over the canonical form of the
    signed part, \<open>None\<close> when signing raises;
  \<^item> \<open>get_fresh_int\<close>: \<^verbatim>\<open>int(self._settings.get_fresh(name))\<close>;
  \<^item> \<open>hours_before_expire\<close>: the setting \<^verbatim>\<open>HOURS_BEFORE_EXPIRE\<close> as the constructor read it;
  \<^item> \<open>sha256_prefix\<close>: the first four bytes of the SHA-256 digest of a path, as a big-endian
    number;
  \<^item> \<open>targetfile_from_dict\<close>: \<^verbatim>\<open>TargetFile.from_dict(target["info"], target["path"])\<close>.

  An action runs in a state and ends with a value or with an exception; either way it
  returns the state it has reached, since what was written before an exception stays
  written.
\<close>

record world =
  files :: "(string \<times> Metadata) list"
  ticks :: nat

record env =
  storage_get :: "(string \<times> Metadata) list \<Rightarrow> string \<Rightarrow> error + Metadata"
  storage_put_error :: "(string \<times> Metadata) list \<Rightarrow> string \<Rightarrow> Metadata \<Rightarrow> error option"
  keyvault_get :: "string \<Rightarrow> error + key list"
  signer_sign :: "key \<Rightarrow> Signed \<Rightarrow> string option"
  get_fresh_int :: "string \<Rightarrow> error + int"
  hours_before_expire :: int
  clock :: "nat \<Rightarrow> datetime"
  sha256_prefix :: "string \<Rightarrow> nat"
  targetfile_from_dict :: "target \<Rightarrow> error + TargetFile"

type_synonym 'a action = "world \<Rightarrow> (error + 'a) \<times> world"

definition ret :: "'a \<Rightarrow> 'a action" where
  "ret x = (\<lambda>w. (Inr x, w))"

definition lift :: "error + 'a \<Rightarrow> 'a action" where
  "lift r = (\<lambda>w. (r, w))"

definition and_then :: "'a action \<Rightarrow> ('a \<Rightarrow> 'b action) \<Rightarrow> 'b action" where
  "and_then m f = (\<lambda>w. case m w of (Inl e, w') \<Rightarrow> (Inl e, w') | (Inr x, w') \<Rightarrow> f x w')"

definition datetime_now :: "env \<Rightarrow> datetime action" where
  "datetime_now env = (\<lambda>w. (Inr (clock env (ticks w)), w\<lparr>ticks := Suc (ticks w)\<rparr>))"

subsection \<open>Loading, signing, persisting, bumping\<close>

text \<open>\<^verbatim>\<open>_load\<close>: the storage service finds the role's latest document.\<close>

definition load :: "env \<Rightarrow> string \<Rightarrow> Metadata action" where
  "load env role_name = (\<lambda>w. (storage_get env (files w) role_name, w))"

text \<open>
  \<^verbatim>\<open>_sign\<close> empties the document's signatures, then signs with every key the key
  vault returns for the role. \<^verbatim>\<open>Metadata.sign(signer, append=True)\<close> files the new
  signature under its key id and turns a failing signer into
  \<^verbatim>\<open>UnsignedMetadataError\<close>.
\<close>

fun sign_keys :: "env \<Rightarrow> key list \<Rightarrow> Metadata \<Rightarrow> error + Metadata" where
  "sign_keys env [] role = Inr role"
| "sign_keys env (k # ks) role =
     (case signer_sign env k (signed role) of
        None \<Rightarrow> Inl UnsignedMetadataError
      | Some s \<Rightarrow>
          sign_keys env ks
            (role\<lparr>signatures :=
               AList.update (key_id k) \<lparr>sig_keyid = key_id k, sig_value = s\<rparr> (signatures role)\<rparr>))"

definition sign :: "env \<Rightarrow> Metadata \<Rightarrow> string \<Rightarrow> Metadata action" where
  "sign env role role_name =
     and_then (lift (keyvault_get env role_name))
       (\<lambda>keys. lift (sign_keys env keys (role\<lparr>signatures := []\<rparr>)))"

text \<open>\<^verbatim>\<open>role.to_file(filename, JSONSerializer(), storage)\<close>: the storage service's
  \<^verbatim>\<open>put\<close> writes the document under the file name, or raises.\<close>

definition to_file :: "env \<Rightarrow> Metadata \<Rightarrow> string \<Rightarrow> unit action" where
  "to_file env role filename =
     (\<lambda>w. case storage_put_error env (files w) filename role of
            Some e \<Rightarrow> (Inl e, w)
          | None \<Rightarrow> (Inr (), w\<lparr>files := (filename, role) # files w\<rparr>))"

text \<open>The file name \<^verbatim>\<open>_persist\<close> computes.\<close>

definition persist_filename :: "Metadata \<Rightarrow> string \<Rightarrow> string" where
  "persist_filename role role_name =
     (let filename = role_name @ ''.json'' in
      if role_name \<noteq> Timestamp_type then
        (if \<not> startswith filename (str_int (version (signed role)) @ ''.'')
         then str_int (version (signed role)) @ ''.'' @ filename
         else filename)
      else filename)"

definition persist :: "env \<Rightarrow> Metadata \<Rightarrow> string \<Rightarrow> unit action" where
  "persist env role role_name = to_file env role (persist_filename role role_name)"

text \<open>\<^verbatim>\<open>_bump_expiry\<close>: the clock is read first, then the setting
  \<^verbatim>\<open><expiry_id>_EXPIRATION\<close> is read and turned into days.\<close>

definition bump_expiry :: "env \<Rightarrow> Metadata \<Rightarrow> string \<Rightarrow> Metadata action" where
  "bump_expiry env role expiry_id =
     and_then (datetime_now env) (\<lambda>now.
     and_then (lift (get_fresh_int env (expiry_id @ ''_EXPIRATION''))) (\<lambda>days.
     and_then (lift (timedelta_days days)) (\<lambda>delta.
     and_then (lift (datetime_add (replace_microsecond0 now) delta)) (\<lambda>e.
     ret (role\<lparr>signed := (signed role)\<lparr>expires := e\<rparr>\<rparr>)))))"

definition bump_version :: "Metadata \<Rightarrow> Metadata" where
  "bump_version role = role\<lparr>signed := (signed role)\<lparr>version := version (signed role) + 1\<rparr>\<rparr>"

subsection \<open>Snapshot and Timestamp\<close>

text \<open>
  \<^verbatim>\<open>timestamp.signed.snapshot_meta = MetaFile(version=snapshot_version)\<close>. Python sets
  the attribute on any object; only a Timestamp document has the field when it is
  written.
\<close>

definition set_snapshot_meta :: "Metadata \<Rightarrow> MetaFile \<Rightarrow> Metadata" where
  "set_snapshot_meta timestamp mf =
     (case payload (signed timestamp) of
        Timestamp _ \<Rightarrow> timestamp\<lparr>signed := (signed timestamp)\<lparr>payload := Timestamp mf\<rparr>\<rparr>
      | _ \<Rightarrow> timestamp)"

definition update_timestamp :: "env \<Rightarrow> int \<Rightarrow> Metadata action" where
  "update_timestamp env snapshot_version =
     and_then (load env Timestamp_type) (\<lambda>timestamp.
     and_then (lift (MetaFile_new snapshot_version)) (\<lambda>mf.
     and_then (bump_expiry env (bump_version (set_snapshot_meta timestamp mf)) Timestamp_type) (\<lambda>timestamp.
     and_then (sign env timestamp Timestamp_type) (\<lambda>timestamp.
     and_then (persist env timestamp Timestamp_type) (\<lambda>_.
     ret timestamp)))))"

text \<open>\<^verbatim>\<open>snapshot.signed.meta[f"{name}.json"] = MetaFile(version=version)\<close> for every
  pair of \<^verbatim>\<open>targets_meta\<close>; a document without \<^verbatim>\<open>meta\<close> raises.\<close>

fun set_metas :: "(string \<times> int) list \<Rightarrow> Metadata \<Rightarrow> error + Metadata" where
  "set_metas [] snapshot = Inr snapshot"
| "set_metas ((name, v) # rest) snapshot =
     (case MetaFile_new v of
        Inl e \<Rightarrow> Inl e
      | Inr mf \<Rightarrow>
          (case payload (signed snapshot) of
             Snapshot meta \<Rightarrow>
               set_metas rest
                 (snapshot\<lparr>signed := (signed snapshot)
                    \<lparr>payload := Snapshot (AList.update (name @ ''.json'') mf meta)\<rparr>\<rparr>)
           | _ \<Rightarrow> Inl AttributeError))"

definition update_snapshot :: "env \<Rightarrow> (string \<times> int) list \<Rightarrow> int action" where
  "update_snapshot env targets_meta =
     and_then (load env Snapshot_type) (\<lambda>snapshot.
     and_then (lift (set_metas targets_meta snapshot)) (\<lambda>snapshot.
     and_then (bump_expiry env snapshot Snapshot_type) (\<lambda>snapshot.
     and_then (sign env (bump_version snapshot) Snapshot_type) (\<lambda>snapshot.
     and_then (persist env snapshot Snapshot_type) (\<lambda>_.
     ret (version (signed snapshot)))))))"

subsection \<open>Succinct hash-bin delegation\<close>

text \<open>
  \<^verbatim>\<open>SuccinctRoles\<close> of the TUF library: \<open>2 ^ bit_length\<close> bins, named by the prefix,
  a dash and the bin's number in hexadecimal. A target path belongs to the bin that
  the leading \<open>bit_length\<close> bits of the first four bytes of its SHA-256 digest
  (\<open>sha256_prefix\<close>) number. The library's constructor keeps \<open>bit_length\<close> between 1 and
  32, so the shift by \<open>32 - bit_length\<close> is never negative; the key ids and the threshold
  of the delegation are not read by the repository and are left out.
\<close>

definition number_of_bins :: "SuccinctRoles \<Rightarrow> nat" where
  "number_of_bins sr = 2 ^ bit_length sr"

definition suffix_len :: "SuccinctRoles \<Rightarrow> nat" where
  "suffix_len sr = length (digits16 (number_of_bins sr - 1))"

definition bin_name :: "SuccinctRoles \<Rightarrow> nat \<Rightarrow> string" where
  "bin_name sr i = name_prefix sr @ ''-'' @ hex_pad (suffix_len sr) i"

definition get_roles :: "SuccinctRoles \<Rightarrow> string list" where
  "get_roles sr = map (bin_name sr) [0..<number_of_bins sr]"

definition get_role_for_target :: "env \<Rightarrow> SuccinctRoles \<Rightarrow> string \<Rightarrow> string" where
  "get_role_for_target env sr target_filepath =
     bin_name sr ((sha256_prefix env target_filepath mod 2 ^ 32) div 2 ^ (32 - bit_length sr))"

text \<open>\<^verbatim>\<open>bin.signed.delegations.succinct_roles\<close>: only a Targets document has
  delegations, and \<^verbatim>\<open>None\<close> has no attribute.\<close>

definition delegations_succinct_roles :: "Metadata \<Rightarrow> error + SuccinctRoles option" where
  "delegations_succinct_roles bin =
     (case payload (signed bin) of
        Targets _ (Some d) \<Rightarrow> Inr (succinct_roles d)
      | _ \<Rightarrow> Inl AttributeError)"

subsection \<open>Bootstrap: \<^verbatim>\<open>add_initial_metadata\<close>\<close>

text \<open>Every entry of the dictionary is parsed with \<^verbatim>\<open>Metadata.from_dict\<close>, whose result
  the entry carries here, and written under \<^verbatim>\<open><role_name>.json\<close> as the key names it.\<close>

fun add_initial_metadata_loop :: "env \<Rightarrow> (string \<times> (error + Metadata)) list \<Rightarrow> unit action" where
  "add_initial_metadata_loop env [] = ret ()"
| "add_initial_metadata_loop env ((role_name, data) # rest) =
     and_then (lift data) (\<lambda>metadata.
     and_then (to_file env metadata (role_name @ ''.json'')) (\<lambda>_.
     add_initial_metadata_loop env rest))"

definition add_initial_metadata :: "env \<Rightarrow> (string \<times> (error + Metadata)) list \<Rightarrow> bool action" where
  "add_initial_metadata env metadata =
     and_then (add_initial_metadata_loop env metadata) (\<lambda>_. ret True)"

subsection \<open>Ingest: \<^verbatim>\<open>add_targets\<close>\<close>

text \<open>The first loop groups the target files by bin, in the order the bins first
  appear.\<close>

fun group_targets ::
  "env \<Rightarrow> SuccinctRoles option \<Rightarrow> target list \<Rightarrow> (string \<times> TargetFile list) list
     \<Rightarrow> error + (string \<times> TargetFile list) list" where
  "group_targets env sr [] bin_target_groups = Inr bin_target_groups"
| "group_targets env sr (t # ts) bin_target_groups =
     (case sr of
        None \<Rightarrow> Inl AttributeError
      | Some s \<Rightarrow>
          (let bins_name = get_role_for_target env s (t_path t);
               groups = (if map_of bin_target_groups bins_name = None
                         then AList.update bins_name [] bin_target_groups
                         else bin_target_groups)
           in case targetfile_from_dict env t of
                Inl e \<Rightarrow> Inl e
              | Inr target_file \<Rightarrow>
                  group_targets env sr ts
                    (AList.map_entry bins_name (\<lambda>l. l @ [target_file]) groups)))"

text \<open>\<^verbatim>\<open>bins_role.signed.targets[target_file.path] = target_file\<close> for every file of
  the group.\<close>

fun set_targets :: "TargetFile list \<Rightarrow> Metadata \<Rightarrow> error + Metadata" where
  "set_targets [] bins_role = Inr bins_role"
| "set_targets (target_file # rest) bins_role =
     (case payload (signed bins_role) of
        Targets targets delegations \<Rightarrow>
          set_targets rest
            (bins_role\<lparr>signed := (signed bins_role)
               \<lparr>payload := Targets (AList.update (tf_path target_file) target_file targets)
                             delegations\<rparr>\<rparr>)
      | _ \<Rightarrow> Inl AttributeError)"

text \<open>The body of the second loop: one bin's load, update, bump, sign and persist.\<close>

definition add_targets_bin :: "env \<Rightarrow> string \<Rightarrow> TargetFile list \<Rightarrow> (string \<times> int) action" where
  "add_targets_bin env bins_name target_files =
     and_then (load env bins_name) (\<lambda>bins_role.
     and_then (lift (set_targets target_files bins_role)) (\<lambda>bins_role.
     and_then (bump_expiry env bins_role BINS) (\<lambda>bins_role.
     and_then (sign env (bump_version bins_role) BINS) (\<lambda>bins_role.
     and_then (persist env bins_role bins_name) (\<lambda>_.
     ret (bins_name, version (signed bins_role)))))))"

fun add_targets_loop ::
  "env \<Rightarrow> (string \<times> TargetFile list) list \<Rightarrow> (string \<times> int) list \<Rightarrow> (string \<times> int) list action" where
  "add_targets_loop env [] targets_meta = ret targets_meta"
| "add_targets_loop env ((bins_name, target_files) # rest) targets_meta =
     and_then (add_targets_bin env bins_name target_files) (\<lambda>m.
     add_targets_loop env rest (targets_meta @ [m]))"

definition add_targets :: "env \<Rightarrow> target list \<Rightarrow> (string \<times> int) list action" where
  "add_targets env targets =
     and_then (load env BIN) (\<lambda>bin.
     and_then (lift (delegations_succinct_roles bin)) (\<lambda>bin_succinct_roles.
     and_then (lift (group_targets env bin_succinct_roles targets [])) (\<lambda>bin_target_groups.
     add_targets_loop env bin_target_groups [])))"

subsection \<open>Publish: \<^verbatim>\<open>publish_targets_metas\<close>\<close>

text \<open>\<^verbatim>\<open>snapshot.signed.meta[key]\<close>.\<close>

definition meta_getitem :: "Metadata \<Rightarrow> string \<Rightarrow> error + MetaFile" where
  "meta_getitem snapshot k =
     (case payload (signed snapshot) of
        Snapshot meta \<Rightarrow> (case map_of meta k of None \<Rightarrow> Inl (KeyError k) | Some mf \<Rightarrow> Inr mf)
      | _ \<Rightarrow> Inl AttributeError)"

text \<open>The loop compares the \<^verbatim>\<open>MetaFile\<close> object Snapshot records for the bin with
  the integer version of the bin's document.\<close>

fun publish_loop ::
  "env \<Rightarrow> Metadata \<Rightarrow> string list \<Rightarrow> (string \<times> int) list \<Rightarrow> (string \<times> int) list action" where
  "publish_loop env snapshot [] targets_meta = ret targets_meta"
| "publish_loop env snapshot (bins_name # rest) targets_meta =
     and_then (load env bins_name) (\<lambda>bins_role.
     and_then (lift (meta_getitem snapshot (bins_name @ ''.json''))) (\<lambda>recorded.
     publish_loop env snapshot rest
       (if py_ne (PyMetaFile recorded) (PyInt (version (signed bins_role)))
        then targets_meta @ [(bins_name, version (signed bins_role))]
        else targets_meta)))"

definition publish_targets_metas :: "env \<Rightarrow> string list \<Rightarrow> unit action" where
  "publish_targets_metas env bins_names =
     and_then (load env Snapshot_type) (\<lambda>snapshot.
     and_then (publish_loop env snapshot bins_names []) (\<lambda>targets_meta.
     if length targets_meta \<noteq> 0
     then and_then (and_then (update_snapshot env targets_meta) (update_timestamp env)) (\<lambda>_. ret ())
     else ret ()))"

subsection \<open>Scheduled maintenance: \<^verbatim>\<open>bump_bins_roles\<close> and \<^verbatim>\<open>bump_snapshot\<close>\<close>

text \<open>\<^verbatim>\<open>(role.signed.expires - datetime.now()) < timedelta(hours=hours_before_expire)\<close>:
  the clock is read before the threshold is built.\<close>

definition near_expiry :: "env \<Rightarrow> Metadata \<Rightarrow> bool action" where
  "near_expiry env role =
     and_then (datetime_now env) (\<lambda>now.
     and_then (lift (timedelta_hours (hours_before_expire env))) (\<lambda>threshold.
     ret (expires (signed role) - now < threshold)))"

text \<open>The body of the sweep's loop: the bin's new entry of \<^verbatim>\<open>targets_meta\<close>, if it
  was bumped.\<close>

definition bump_bins_role :: "env \<Rightarrow> string \<Rightarrow> (string \<times> int) option action" where
  "bump_bins_role env bins_name =
     and_then (load env bins_name) (\<lambda>bins_role.
     and_then (near_expiry env bins_role) (\<lambda>near.
     if near then
       and_then (bump_expiry env bins_role BINS) (\<lambda>bins_role.
       and_then (sign env (bump_version bins_role) BINS) (\<lambda>bins_role.
       and_then (persist env bins_role bins_name) (\<lambda>_.
       ret (Some (bins_name, version (signed bins_role))))))
     else ret None))"

fun bump_bins_loop :: "env \<Rightarrow> string list \<Rightarrow> (string \<times> int) list \<Rightarrow> (string \<times> int) list action" where
  "bump_bins_loop env [] targets_meta = ret targets_meta"
| "bump_bins_loop env (bins_name # rest) targets_meta =
     and_then (bump_bins_role env bins_name) (\<lambda>m.
     bump_bins_loop env rest (case m of None \<Rightarrow> targets_meta | Some x \<Rightarrow> targets_meta @ [x]))"

text \<open>\<^verbatim>\<open>try: bin = self._load(BIN)  except StorageError: return False\<close>; any other
  exception goes on to the caller.\<close>

definition bump_bins_roles :: "env \<Rightarrow> bool action" where
  "bump_bins_roles env =
     (\<lambda>w. case load env BIN w of
            (Inl StorageError, w') \<Rightarrow> (Inr False, w')
          | (Inl e, w') \<Rightarrow> (Inl e, w')
          | (Inr bin, w') \<Rightarrow>
              and_then (lift (delegations_succinct_roles bin)) (\<lambda>bin_succinct_roles.
              and_then (lift (case bin_succinct_roles of
                                None \<Rightarrow> Inl AttributeError
                              | Some sr \<Rightarrow> Inr (get_roles sr))) (\<lambda>roles.
              and_then (bump_bins_loop env roles []) (\<lambda>targets_meta.
              if length targets_meta > 0
              then and_then (and_then (update_snapshot env targets_meta) (update_timestamp env))
                     (\<lambda>timestamp. ret True)
              else ret True))) w')"

definition bump_snapshot :: "env \<Rightarrow> bool action" where
  "bump_snapshot env =
     (\<lambda>w. case load env Snapshot_type w of
            (Inl StorageError, w') \<Rightarrow> (Inr False, w')
          | (Inl e, w') \<Rightarrow> (Inl e, w')
          | (Inr snapshot, w') \<Rightarrow>
              and_then (near_expiry env snapshot) (\<lambda>near.
              if near
              then and_then (and_then (update_snapshot env []) (update_timestamp env))
                     (\<lambda>timestamp. ret True)
              else ret True) w')"

subsection \<open>A storage service and a small repository\<close>

text \<open>
  Modelled from the spec: the storage service's \<^verbatim>\<open>get\<close>, which is not in the file.
  The Persistence Adapter "loads the latest version of a named role's document" and
  answers NotFound for a role that has none. Here the latest document of a role is the
  most recently written file whose name is the one \<^verbatim>\<open>_persist\<close> gives the role at
  the version of the document in it.
\<close>

definition latest_get :: "(string \<times> Metadata) list \<Rightarrow> string \<Rightarrow> error + Metadata" where
  "latest_get fs role_name =
     (case find (\<lambda>(filename, role). filename = persist_filename role role_name) fs of
        None \<Rightarrow> Inl StorageError
      | Some (filename, role) \<Rightarrow> Inr role)"

text \<open>A repository with two bins, one key for every role, a one-day expiration
  interval for every role class and the default freshness window of one hour. The clock
  stands at 5.000123 seconds, and every stored document is at version 1 and expires at
  second 7, inside the window.\<close>

definition example_key :: key where
  "example_key = \<lparr>key_id = ''k1'', key_material = ''s1''\<rparr>"

definition example_env :: env where
  "example_env =
     \<lparr>storage_get = latest_get,
      storage_put_error = (\<lambda>fs filename role. None),
      keyvault_get = (\<lambda>role_name. Inr [example_key]),
      signer_sign = (\<lambda>k s. Some (key_material k)),
      get_fresh_int = (\<lambda>name. Inr 1),
      hours_before_expire = 1,
      clock = (\<lambda>n. 5000123),
      sha256_prefix = (\<lambda>path. if path = ''a.txt'' then 0 else 2 ^ 31),
      targetfile_from_dict =
        (\<lambda>t. Inr \<lparr>tf_path = t_path t, tf_length = fst (t_info t), tf_hashes = snd (t_info t)\<rparr>)\<rparr>"

definition doc :: "int \<Rightarrow> datetime \<Rightarrow> RolePayload \<Rightarrow> Metadata" where
  "doc v e p = \<lparr>signed = \<lparr>version = v, expires = e, payload = p\<rparr>, signatures = []\<rparr>"

text \<open>A document as the example key signs it.\<close>

definition signed_doc :: "int \<Rightarrow> datetime \<Rightarrow> RolePayload \<Rightarrow> Metadata" where
  "signed_doc v e p =
     \<lparr>signed = \<lparr>version = v, expires = e, payload = p\<rparr>,
      signatures = [(''k1'', \<lparr>sig_keyid = ''k1'', sig_value = ''s1''\<rparr>)]\<rparr>"

definition example_meta :: "(string \<times> MetaFile) list" where
  "example_meta =
     [(''bins-0.json'', \<lparr>mf_version = 1, mf_length = None, mf_hashes = None\<rparr>),
      (''bins-1.json'', \<lparr>mf_version = 1, mf_length = None, mf_hashes = None\<rparr>)]"

definition example_files :: "(string \<times> Metadata) list" where
  "example_files =
     [(''timestamp.json'',
         doc 1 7000000 (Timestamp \<lparr>mf_version = 1, mf_length = None, mf_hashes = None\<rparr>)),
      (''1.snapshot.json'', doc 1 7000000 (Snapshot example_meta)),
      (''1.bin.json'',
         doc 1 7000000
           (Targets [] (Some \<lparr>succinct_roles = Some \<lparr>bit_length = 1, name_prefix = ''bins''\<rparr>\<rparr>))),
      (''1.bins-0.json'', doc 1 7000000 (Targets [] None)),
      (''1.bins-1.json'', doc 1 7000000 (Targets [] None))]"

definition example_world :: world where
  "example_world = \<lparr>files = example_files, ticks = 0\<rparr>"

subsection \<open>Reading back what was written\<close>

text \<open>
  Modelled from the spec: the contract of the storage service's \<^verbatim>\<open>get\<close>, which is not in
  the file. The Persistence Adapter "loads the latest version of a named role's document":
  after a document has been written under the file name \<^verbatim>\<open>_persist\<close> gives a role, loading
  that role returns it, and a write under any other name does not change what the role loads.
  \<^const>\<open>latest_get\<close> is such a service.
\<close>

definition read_back :: "env \<Rightarrow> bool" where
  "read_back env \<longleftrightarrow>
     (\<forall>fs filename role role_name.
        storage_get env ((filename, role) # fs) role_name =
          (if filename = persist_filename role role_name then Inr role
           else storage_get env fs role_name))"

text \<open>A document the sweeps leave alone at the time \<open>now\<close>: its expiry is not within the
  freshness window. \<open>all_outside_window\<close> says so of the documents a set of roles loads.\<close>

definition outside_window :: "env \<Rightarrow> datetime \<Rightarrow> Metadata \<Rightarrow> bool" where
  "outside_window env now role \<longleftrightarrow>
     \<not> expires (signed role) - now < hours_before_expire env * 3600000000"

definition all_outside_window ::
  "env \<Rightarrow> datetime \<Rightarrow> (string \<times> Metadata) list \<Rightarrow> string set \<Rightarrow> bool" where
  "all_outside_window env now fs roles \<longleftrightarrow>
     (\<forall>r\<in>roles. \<exists>role. storage_get env fs r = Inr role \<and> outside_window env now role)"

section \<open>Verification\<close>

subsection \<open>How the actions compose\<close>

lemma and_then_Inr:
  "m w = (Inr x, w1) \<Longrightarrow> and_then m f w = f x w1"
  by (simp add: and_then_def)

lemma and_then_Inl:
  "m w = (Inl e, w1) \<Longrightarrow> and_then m f w = (Inl e, w1)"
  by (simp add: and_then_def)

lemma and_then_Inr_iff:
  "and_then m f w = (Inr y, w') \<longleftrightarrow> (\<exists>x w1. m w = (Inr x, w1) \<and> f x w1 = (Inr y, w'))"
  by (auto simp: and_then_def split: prod.splits sum.splits)

lemma lift_Inr_iff: "lift r w = (Inr x, w') \<longleftrightarrow> r = Inr x \<and> w' = w"
  by (auto simp: lift_def)

lemma ret_iff: "ret x w = (r, w') \<longleftrightarrow> r = Inr x \<and> w' = w"
  by (auto simp: ret_def)

lemma load_iff:
  "load env role_name w = (r, w') \<longleftrightarrow> storage_get env (files w) role_name = r \<and> w' = w"
  by (auto simp: load_def)

lemma datetime_now_iff:
  "datetime_now env w = (r, w') \<longleftrightarrow>
     r = Inr (clock env (ticks w)) \<and> w' = w\<lparr>ticks := Suc (ticks w)\<rparr>"
  by (auto simp: datetime_now_def)

subsection \<open>The steps of a cycle\<close>

lemma sign_keys_signed: "sign_keys env keys role = Inr role' \<Longrightarrow> signed role' = signed role"
  by (induction keys arbitrary: role) (auto split: option.splits)

lemma sign_Inr_iff:
  "sign env role role_name w = (Inr role', w') \<longleftrightarrow>
     w' = w \<and> (\<exists>keys. keyvault_get env role_name = Inr keys \<and>
                  sign_keys env keys (role\<lparr>signatures := []\<rparr>) = Inr role')"
  by (auto simp: sign_def and_then_Inr_iff lift_Inr_iff)

lemma sign_signed:
  "sign env role role_name w = (Inr role', w') \<Longrightarrow> signed role' = signed role \<and> w' = w"
  by (auto simp: sign_Inr_iff dest: sign_keys_signed)

lemma persist_Inr_iff:
  "persist env role role_name w = (Inr u, w') \<longleftrightarrow>
     storage_put_error env (files w) (persist_filename role role_name) role = None \<and>
     w' = w\<lparr>files := (persist_filename role role_name, role) # files w\<rparr>"
  by (auto simp: persist_def to_file_def split: option.splits)

lemma bump_expiry_Inr_iff:
  "bump_expiry env role expiry_id w = (Inr role', w') \<longleftrightarrow>
     (\<exists>days. get_fresh_int env (expiry_id @ ''_EXPIRATION'') = Inr days \<and>
        timedelta_days days = Inr (days * 86400000000) \<and>
        datetime_add (replace_microsecond0 (clock env (ticks w))) (days * 86400000000) =
          Inr (replace_microsecond0 (clock env (ticks w)) + days * 86400000000) \<and>
        role' = role\<lparr>signed := (signed role)
                  \<lparr>expires := replace_microsecond0 (clock env (ticks w)) + days * 86400000000\<rparr>\<rparr> \<and>
        w' = w\<lparr>ticks := Suc (ticks w)\<rparr>)"
  by (auto simp: bump_expiry_def and_then_Inr_iff lift_Inr_iff ret_iff datetime_now_iff
        timedelta_days_def datetime_add_def split: if_splits)

lemma set_metas_frame:
  "set_metas targets_meta snapshot = Inr snapshot' \<Longrightarrow>
     version (signed snapshot') = version (signed snapshot) \<and>
     expires (signed snapshot') = expires (signed snapshot) \<and>
     signatures snapshot' = signatures snapshot"
  by (induction targets_meta snapshot rule: set_metas.induct)
     (auto split: sum.splits RolePayload.splits)

lemma set_targets_frame:
  "set_targets target_files bins_role = Inr bins_role' \<Longrightarrow>
     version (signed bins_role') = version (signed bins_role) \<and>
     expires (signed bins_role') = expires (signed bins_role) \<and>
     signatures bins_role' = signatures bins_role"
  by (induction target_files bins_role rule: set_targets.induct)
     (auto split: RolePayload.splits)

text \<open>What a completed Snapshot update did: the stored Snapshot was loaded, given the new
  entries, bumped, signed and written under its version-prefixed name.\<close>

lemma update_snapshot_Inr:
  assumes "update_snapshot env targets_meta w = (Inr v, w')"
  shows "\<exists>old mid new days.
           storage_get env (files w) Snapshot_type = Inr old \<and>
           set_metas targets_meta old = Inr mid \<and>
           get_fresh_int env ''snapshot_EXPIRATION'' = Inr days \<and>
           signed new = (signed mid)
             \<lparr>expires := replace_microsecond0 (clock env (ticks w)) + days * 86400000000,
              version := version (signed mid) + 1\<rparr> \<and>
           v = version (signed new) \<and>
           files w' = (persist_filename new Snapshot_type, new) # files w \<and>
           ticks w' = Suc (ticks w)"
proof -
  from assms obtain old mid b w1 new w2 where
    old: "storage_get env (files w) Snapshot_type = Inr old" and
    mid: "set_metas targets_meta old = Inr mid" and
    b: "bump_expiry env mid Snapshot_type w = (Inr b, w1)" and
    new: "sign env (bump_version b) Snapshot_type w1 = (Inr new, w2)" and
    p: "persist env new Snapshot_type w2 = (Inr (), w')" and
    v: "v = version (signed new)"
    by (auto simp: update_snapshot_def and_then_Inr_iff lift_Inr_iff ret_iff load_iff)
  from b obtain days where
    days: "get_fresh_int env ''snapshot_EXPIRATION'' = Inr days" and
    b_eq: "b = mid\<lparr>signed := (signed mid)
             \<lparr>expires := replace_microsecond0 (clock env (ticks w)) + days * 86400000000\<rparr>\<rparr>" and
    w1: "w1 = w\<lparr>ticks := Suc (ticks w)\<rparr>"
    by (auto simp: bump_expiry_Inr_iff Snapshot_type_def)
  from new have s: "signed new = signed (bump_version b)" and w2: "w2 = w1"
    by (auto dest: sign_signed)
  from p have w': "w' = w2\<lparr>files := (persist_filename new Snapshot_type, new) # files w2\<rparr>"
    by (simp add: persist_Inr_iff)
  have "signed new = (signed mid)
          \<lparr>expires := replace_microsecond0 (clock env (ticks w)) + days * 86400000000,
           version := version (signed mid) + 1\<rparr>"
    by (simp add: s b_eq bump_version_def)
  moreover have "files w' = (persist_filename new Snapshot_type, new) # files w"
    and "ticks w' = Suc (ticks w)"
    by (simp_all add: w' w2 w1)
  ultimately show ?thesis
    using old mid days v by blast
qed

lemma set_snapshot_meta_frame:
  "version (signed (set_snapshot_meta timestamp mf)) = version (signed timestamp) \<and>
   expires (signed (set_snapshot_meta timestamp mf)) = expires (signed timestamp) \<and>
   signatures (set_snapshot_meta timestamp mf) = signatures timestamp"
  by (simp add: set_snapshot_meta_def split: RolePayload.splits)

text \<open>What a completed Timestamp update did.\<close>

lemma update_timestamp_Inr:
  assumes "update_timestamp env snapshot_version w = (Inr timestamp, w')"
  shows "\<exists>old mf days.
           storage_get env (files w) Timestamp_type = Inr old \<and>
           MetaFile_new snapshot_version = Inr mf \<and>
           get_fresh_int env ''timestamp_EXPIRATION'' = Inr days \<and>
           signed timestamp = (signed (set_snapshot_meta old mf))
             \<lparr>version := version (signed old) + 1,
              expires := replace_microsecond0 (clock env (ticks w)) + days * 86400000000\<rparr> \<and>
           files w' = (''timestamp.json'', timestamp) # files w \<and>
           ticks w' = Suc (ticks w)"
proof -
  from assms obtain old mf b w1 w2 where
    old: "storage_get env (files w) Timestamp_type = Inr old" and
    mf: "MetaFile_new snapshot_version = Inr mf" and
    b: "bump_expiry env (bump_version (set_snapshot_meta old mf)) Timestamp_type w = (Inr b, w1)" and
    new: "sign env b Timestamp_type w1 = (Inr timestamp, w2)" and
    p: "persist env timestamp Timestamp_type w2 = (Inr (), w')"
    by (auto simp: update_timestamp_def and_then_Inr_iff lift_Inr_iff ret_iff load_iff)
  from b obtain days where
    days: "get_fresh_int env ''timestamp_EXPIRATION'' = Inr days" and
    b_eq: "b = (bump_version (set_snapshot_meta old mf))
             \<lparr>signed := (signed (bump_version (set_snapshot_meta old mf)))
               \<lparr>expires := replace_microsecond0 (clock env (ticks w)) + days * 86400000000\<rparr>\<rparr>" and
    w1: "w1 = w\<lparr>ticks := Suc (ticks w)\<rparr>"
    by (auto simp: bump_expiry_Inr_iff Timestamp_type_def)
  from new have s: "signed timestamp = signed b" and w2: "w2 = w1"
    by (auto dest: sign_signed)
  from p have w': "w' = w2\<lparr>files := (''timestamp.json'', timestamp) # files w2\<rparr>"
    by (simp add: persist_Inr_iff persist_filename_def Timestamp_type_def)
  have "signed timestamp = (signed (set_snapshot_meta old mf))
          \<lparr>version := version (signed old) + 1,
           expires := replace_microsecond0 (clock env (ticks w)) + days * 86400000000\<rparr>"
    by (simp add: s b_eq bump_version_def set_snapshot_meta_frame)
  moreover have "files w' = (''timestamp.json'', timestamp) # files w"
    and "ticks w' = Suc (ticks w)"
    by (simp_all add: w' w2 w1)
  ultimately show ?thesis
    using old mf days by blast
qed

text \<open>What one bin's completed ingest cycle did.\<close>

lemma add_targets_bin_Inr:
  assumes "add_targets_bin env bins_name target_files w = (Inr m, w')"
  shows "\<exists>old mid new days.
           storage_get env (files w) bins_name = Inr old \<and>
           set_targets target_files old = Inr mid \<and>
           get_fresh_int env ''bins_EXPIRATION'' = Inr days \<and>
           signed new = (signed mid)
             \<lparr>expires := replace_microsecond0 (clock env (ticks w)) + days * 86400000000,
              version := version (signed mid) + 1\<rparr> \<and>
           m = (bins_name, version (signed new)) \<and>
           files w' = (persist_filename new bins_name, new) # files w \<and>
           ticks w' = Suc (ticks w)"
proof -
  from assms obtain old mid b w1 new w2 where
    old: "storage_get env (files w) bins_name = Inr old" and
    mid: "set_targets target_files old = Inr mid" and
    b: "bump_expiry env mid BINS w = (Inr b, w1)" and
    new: "sign env (bump_version b) BINS w1 = (Inr new, w2)" and
    p: "persist env new bins_name w2 = (Inr (), w')" and
    m: "m = (bins_name, version (signed new))"
    by (auto simp: add_targets_bin_def and_then_Inr_iff lift_Inr_iff ret_iff load_iff)
  from b obtain days where
    days: "get_fresh_int env ''bins_EXPIRATION'' = Inr days" and
    b_eq: "b = mid\<lparr>signed := (signed mid)
             \<lparr>expires := replace_microsecond0 (clock env (ticks w)) + days * 86400000000\<rparr>\<rparr>" and
    w1: "w1 = w\<lparr>ticks := Suc (ticks w)\<rparr>"
    by (auto simp: bump_expiry_Inr_iff BINS_def)
  from new have s: "signed new = signed (bump_version b)" and w2: "w2 = w1"
    by (auto dest: sign_signed)
  from p have w': "w' = w2\<lparr>files := (persist_filename new bins_name, new) # files w2\<rparr>"
    by (simp add: persist_Inr_iff)
  have "signed new = (signed mid)
          \<lparr>expires := replace_microsecond0 (clock env (ticks w)) + days * 86400000000,
           version := version (signed mid) + 1\<rparr>"
    by (simp add: s b_eq bump_version_def)
  moreover have "files w' = (persist_filename new bins_name, new) # files w"
    and "ticks w' = Suc (ticks w)"
    by (simp_all add: w' w2 w1)
  ultimately show ?thesis
    using old mid days m by blast
qed

lemma near_expiry_iff:
  "near_expiry env role w = (Inr near, w') \<longleftrightarrow>
     timedelta_hours (hours_before_expire env) = Inr (hours_before_expire env * 3600000000) \<and>
     near = (expires (signed role) - clock env (ticks w) < hours_before_expire env * 3600000000) \<and>
     w' = w\<lparr>ticks := Suc (ticks w)\<rparr>"
  by (auto simp: near_expiry_def and_then_Inr_iff lift_Inr_iff ret_iff datetime_now_iff
        timedelta_hours_def split: if_splits)

text \<open>What the sweep did to a bin it bumped, and to one it left alone.\<close>

lemma bump_bins_role_Some:
  assumes "bump_bins_role env bins_name w = (Inr (Some m), w')"
  shows "\<exists>old new days.
           storage_get env (files w) bins_name = Inr old \<and>
           expires (signed old) - clock env (ticks w) < hours_before_expire env * 3600000000 \<and>
           get_fresh_int env ''bins_EXPIRATION'' = Inr days \<and>
           signed new = (signed old)
             \<lparr>expires := replace_microsecond0 (clock env (Suc (ticks w))) + days * 86400000000,
              version := version (signed old) + 1\<rparr> \<and>
           m = (bins_name, version (signed new)) \<and>
           files w' = (persist_filename new bins_name, new) # files w \<and>
           ticks w' = Suc (Suc (ticks w))"
proof -
  from assms obtain old near w0 where
    old: "storage_get env (files w) bins_name = Inr old" and
    near: "near_expiry env old w = (Inr near, w0)" and
    rest: "(if near then
       and_then (bump_expiry env old BINS) (\<lambda>bins_role.
       and_then (sign env (bump_version bins_role) BINS) (\<lambda>bins_role.
       and_then (persist env bins_role bins_name) (\<lambda>_.
       ret (Some (bins_name, version (signed bins_role))))))
     else ret None) w0 = (Inr (Some m), w')"
    by (auto simp: bump_bins_role_def and_then_Inr_iff load_iff)
  from rest have n: near by (auto simp: ret_iff split: if_splits)
  from near n have
    lt: "expires (signed old) - clock env (ticks w) < hours_before_expire env * 3600000000" and
    w0: "w0 = w\<lparr>ticks := Suc (ticks w)\<rparr>"
    by (auto simp: near_expiry_iff)
  from rest n obtain b w1 new w2 where
    b: "bump_expiry env old BINS w0 = (Inr b, w1)" and
    new: "sign env (bump_version b) BINS w1 = (Inr new, w2)" and
    p: "persist env new bins_name w2 = (Inr (), w')" and
    m: "m = (bins_name, version (signed new))"
    by (auto simp: and_then_Inr_iff ret_iff)
  from b obtain days where
    days: "get_fresh_int env ''bins_EXPIRATION'' = Inr days" and
    b_eq: "b = old\<lparr>signed := (signed old)
             \<lparr>expires := replace_microsecond0 (clock env (ticks w0)) + days * 86400000000\<rparr>\<rparr>" and
    w1: "w1 = w0\<lparr>ticks := Suc (ticks w0)\<rparr>"
    by (auto simp: bump_expiry_Inr_iff BINS_def)
  from new have s: "signed new = signed (bump_version b)" and w2: "w2 = w1"
    by (auto dest: sign_signed)
  from p have w': "w' = w2\<lparr>files := (persist_filename new bins_name, new) # files w2\<rparr>"
    by (simp add: persist_Inr_iff)
  have "signed new = (signed old)
          \<lparr>expires := replace_microsecond0 (clock env (Suc (ticks w))) + days * 86400000000,
           version := version (signed old) + 1\<rparr>"
    by (simp add: s b_eq bump_version_def w0)
  moreover have "files w' = (persist_filename new bins_name, new) # files w"
    and "ticks w' = Suc (Suc (ticks w))"
    by (simp_all add: w' w2 w1 w0)
  ultimately show ?thesis
    using old lt days m by blast
qed

lemma bump_bins_role_None:
  assumes "bump_bins_role env bins_name w = (Inr None, w')"
  shows "\<exists>old. storage_get env (files w) bins_name = Inr old \<and>
           \<not> expires (signed old) - clock env (ticks w) < hours_before_expire env * 3600000000 \<and>
           files w' = files w \<and> ticks w' = Suc (ticks w)"
  using assms
  by (auto simp: bump_bins_role_def and_then_Inr_iff load_iff near_expiry_iff ret_iff
      split: if_splits)

subsection \<open>File names\<close>

lemma startswith_iff: "startswith s p \<longleftrightarrow> (\<exists>t. s = p @ t)"
  by (induction s p rule: startswith.induct) auto

lemma digits10_nonempty: "digits10 n \<noteq> []"
  by (subst digits10.simps) simp

lemma digit_char_decimal: "m < 10 \<Longrightarrow> digit_char m \<in> set ''0123456789''"
proof -
  assume "m < 10"
  then have "m \<in> {0, 1, 2, 3, 4, 5, 6, 7, 8, 9}" by auto
  then show ?thesis by (auto simp: digit_char_def)
qed

lemma digits10_chars: "set (digits10 n) \<subseteq> set ''0123456789''"
proof (induction n rule: digits10.induct)
  case (1 n)
  show ?case
  proof (cases "n < 10")
    case True
    have "digits10 n = [digit_char n]"
      using True by (subst digits10.simps) simp
    then show ?thesis using digit_char_decimal[OF True] by simp
  next
    case False
    have "digits10 n = digits10 (n div 10) @ [digit_char (n mod 10)]"
      using False by (subst digits10.simps) simp
    moreover have "digit_char (n mod 10) \<in> set ''0123456789''"
      by (rule digit_char_decimal) simp
    moreover have "set (digits10 (n div 10)) \<subseteq> set ''0123456789''"
      using 1 False by simp
    ultimately show ?thesis by simp
  qed
qed

lemma str_int_nonempty: "str_int i \<noteq> []"
  by (simp add: str_int_def digits10_nonempty)

lemma str_int_chars: "set (str_int i) \<subseteq> set ''-0123456789''"
proof (cases "i < 0")
  case True
  then have "str_int i = CHR ''-'' # digits10 (nat (- i))" by (simp add: str_int_def)
  moreover have "insert CHR ''-'' (set (digits10 (nat (- i)))) \<subseteq> insert CHR ''-'' (set ''0123456789'')"
    using digits10_chars by (rule insert_mono)
  ultimately show ?thesis by (simp only: list.set)
next
  case False
  then have "str_int i = digits10 (nat i)" by (simp add: str_int_def)
  moreover have "set ''0123456789'' \<subseteq> set ''-0123456789''"
    by (rule set_subset_Cons)
  ultimately show ?thesis using digits10_chars[of "nat i"] by (simp only: subset_trans)
qed

lemma hd_str_int: "hd (str_int i) \<in> set ''-0123456789''"
  using str_int_chars[of i] hd_in_set[OF str_int_nonempty[of i]] by blast

lemma timestamp_json_unprefixed: "\<not> startswith ''timestamp.json'' (str_int v @ ''.'')"
proof
  assume "startswith ''timestamp.json'' (str_int v @ ''.'')"
  then obtain t where "''timestamp.json'' = str_int v @ ''.'' @ t"
    unfolding startswith_iff by auto
  then have "hd ''timestamp.json'' = hd (str_int v @ ''.'' @ t)"
    by (rule arg_cong)
  then have "hd (str_int v) = CHR ''t''"
    using str_int_nonempty[of v] by simp
  then show False using hd_str_int[of v] by simp
qed

lemma prefixed_name_differs: "str_int v @ ''.'' @ name \<noteq> name"
proof
  assume "str_int v @ ''.'' @ name = name"
  then have "length (str_int v @ ''.'' @ name) = length name" by (rule arg_cong)
  then show False by simp
qed

lemmas run_defs =
  and_then_def ret_def lift_def load_def datetime_now_def sign_def to_file_def persist_def
  persist_filename_def bump_expiry_def bump_version_def set_snapshot_meta_def
  update_timestamp_def update_snapshot_def MetaFile_new_def py_ne_def
  timedelta_days_def timedelta_hours_def datetime_add_def datetime_max_def replace_microsecond0_def
  str_int_def digits10.simps digits16.simps digit_char_def hex_pad_def
  BIN_def BINS_def Timestamp_type_def Snapshot_type_def
  number_of_bins_def suffix_len_def bin_name_def get_roles_def get_role_for_target_def
  delegations_succinct_roles_def add_targets_bin_def add_targets_def add_initial_metadata_def
  meta_getitem_def
  publish_targets_metas_def near_expiry_def bump_bins_role_def bump_bins_roles_def bump_snapshot_def
  latest_get_def example_key_def example_env_def doc_def signed_doc_def example_meta_def example_files_def
  example_world_def

subsection \<open>Persisting: file names\<close>

text \<open>
  Claim C9 says that every role but Timestamp is written under its file name with the
  document's version put in front, as in \<^verbatim>\<open><version>.<role_name>.json\<close>. \<^verbatim>\<open>_persist\<close> puts
  the version in front only of a name that does not start with it already. With the name
  prefix \<^verbatim>\<open>3.bins\<close> the delegation has the bin \<^verbatim>\<open>3.bins-0\<close>, and at version 3 its document
  is written to \<^verbatim>\<open>3.bins-0.json\<close>, not to \<^verbatim>\<open>3.3.bins-0.json\<close>.
\<close>

theorem persist_leaves_prefixed_name_alone:
  "get_roles \<lparr>bit_length = 1, name_prefix = ''3.bins''\<rparr> = [''3.bins-0'', ''3.bins-1''] \<and>
   ''3.bins-0'' \<noteq> Timestamp_type \<and>
   version (signed (doc 3 0 (Targets [] None))) = 3 \<and>
   persist example_env (doc 3 0 (Targets [] None)) ''3.bins-0'' example_world =
     (Inr (), example_world\<lparr>files := (''3.bins-0.json'', doc 3 0 (Targets [] None)) # files example_world\<rparr>) \<and>
   ''3.bins-0.json'' \<noteq> str_int 3 @ ''.'' @ ''3.bins-0'' @ ''.json''"
  by (simp add: run_defs upt_rec)

text \<open>
  Claim C9, amended. Every document \<^verbatim>\<open>_persist\<close> writes goes to one file. For the Timestamp
  role that file is \<^verbatim>\<open>timestamp.json\<close>, which carries no version prefix. For every other
  role the file's name starts with the document's version and a dot: it is
  \<^verbatim>\<open><role_name>.json\<close> itself when that starts so, and \<^verbatim>\<open><version>.<role_name>.json\<close>
  otherwise.
\<close>

theorem persist_timestamp_fixed_others_prefixed:
  assumes "persist env role role_name w = (Inr u, w')"
  shows "\<exists>filename. files w' = (filename, role) # files w \<and>
           (role_name = Timestamp_type \<longrightarrow>
              filename = ''timestamp.json'' \<and>
              \<not> startswith filename (str_int (version (signed role)) @ ''.'')) \<and>
           (role_name \<noteq> Timestamp_type \<longrightarrow>
              startswith filename (str_int (version (signed role)) @ ''.'') \<and>
              filename =
                (if startswith (role_name @ ''.json'') (str_int (version (signed role)) @ ''.'')
                 then role_name @ ''.json''
                 else str_int (version (signed role)) @ ''.'' @ role_name @ ''.json''))"
proof -
  let ?f = "persist_filename role role_name"
  from assms have "files w' = (?f, role) # files w"
    by (simp add: persist_Inr_iff)
  moreover have "role_name = Timestamp_type \<longrightarrow>
      ?f = ''timestamp.json'' \<and> \<not> startswith ?f (str_int (version (signed role)) @ ''.'')"
    using timestamp_json_unprefixed by (simp add: persist_filename_def Timestamp_type_def)
  moreover have "role_name \<noteq> Timestamp_type \<longrightarrow>
      startswith ?f (str_int (version (signed role)) @ ''.'') \<and>
      ?f = (if startswith (role_name @ ''.json'') (str_int (version (signed role)) @ ''.'')
            then role_name @ ''.json''
            else str_int (version (signed role)) @ ''.'' @ role_name @ ''.json'')"
    by (simp add: persist_filename_def Let_def startswith_iff)
  ultimately show ?thesis by blast
qed

theorem persist_timestamp_fixed_others_prefixed_witness:
  "persist example_env (doc 3 0 (Snapshot [])) ''snapshot'' example_world =
     (Inr (), example_world\<lparr>files := (''3.snapshot.json'', doc 3 0 (Snapshot [])) # files example_world\<rparr>) \<and>
   persist example_env (doc 3 0 (Timestamp \<lparr>mf_version = 2, mf_length = None, mf_hashes = None\<rparr>))
       ''timestamp'' example_world =
     (Inr (), example_world\<lparr>files :=
        (''timestamp.json'', doc 3 0 (Timestamp \<lparr>mf_version = 2, mf_length = None, mf_hashes = None\<rparr>))
          # files example_world\<rparr>) \<and>
   startswith ''3.snapshot.json'' (str_int 3 @ ''.'') \<and>
   \<not> startswith ''timestamp.json'' (str_int 3 @ ''.'')"
proof -
  let ?w1 = "example_world\<lparr>files := (''3.snapshot.json'', doc 3 0 (Snapshot [])) # files example_world\<rparr>"
  let ?ts = "doc 3 0 (Timestamp \<lparr>mf_version = 2, mf_length = None, mf_hashes = None\<rparr>)"
  let ?w2 = "example_world\<lparr>files := (''timestamp.json'', ?ts) # files example_world\<rparr>"
  have h1: "persist example_env (doc 3 0 (Snapshot [])) ''snapshot'' example_world = (Inr (), ?w1)"
    by (simp add: run_defs)
  have h2: "persist example_env ?ts ''timestamp'' example_world = (Inr (), ?w2)"
    by (simp add: run_defs)
  have v: "version (signed (doc 3 0 p)) = 3" for p by (simp add: doc_def)
  have n: "''snapshot'' \<noteq> Timestamp_type" "''timestamp'' = Timestamp_type"
    by (simp_all add: Timestamp_type_def)
  from persist_timestamp_fixed_others_prefixed[OF h1] n(1) obtain filename where
    "files ?w1 = (filename, doc 3 0 (Snapshot [])) # files example_world"
    "startswith filename (str_int (version (signed (doc 3 0 (Snapshot [])))) @ ''.'')"
    by blast
  then have "startswith ''3.snapshot.json'' (str_int 3 @ ''.'')"
    by (simp add: v)
  moreover from persist_timestamp_fixed_others_prefixed[OF h2] n(2) obtain filename where
    "files ?w2 = (filename, ?ts) # files example_world"
    "\<not> startswith filename (str_int (version (signed ?ts)) @ ''.'')"
    by blast
  then have "\<not> startswith ''timestamp.json'' (str_int 3 @ ''.'')"
    by (simp add: v)
  ultimately show ?thesis using h1 h2 by simp
qed

text \<open>
  Claim C10. For a role other than Timestamp, \<^verbatim>\<open>_persist\<close> adds the version prefix exactly
  when \<^verbatim>\<open><role_name>.json\<close> does not already start with the version and a dot. That is so
  for a role whose name is its version's digits or starts with them and a dot. Such a
  document is written to the unprefixed \<^verbatim>\<open><role_name>.json\<close>: whatever that file held,
  such as the version the bootstrap wrote there, is replaced, and no file
  \<^verbatim>\<open><version>.<role_name>.json\<close> is created.
\<close>

theorem persist_prefix_only_when_missing:
  "(role_name \<noteq> Timestamp_type \<longrightarrow>
      persist_filename role role_name =
        (if startswith (role_name @ ''.json'') (str_int (version (signed role)) @ ''.'')
         then role_name @ ''.json''
         else str_int (version (signed role)) @ ''.'' @ role_name @ ''.json'')) \<and>
   (role_name = str_int (version (signed role)) \<or>
    startswith role_name (str_int (version (signed role)) @ ''.'') \<longrightarrow>
      startswith (role_name @ ''.json'') (str_int (version (signed role)) @ ''.'')) \<and>
   (startswith (role_name @ ''.json'') (str_int (version (signed role)) @ ''.'') \<and>
    persist env role role_name w = (Inr u, w') \<longrightarrow>
      files w' = (role_name @ ''.json'', role) # files w \<and>
      map_of (files w') (role_name @ ''.json'') = Some role \<and>
      map_of (files w') (str_int (version (signed role)) @ ''.'' @ role_name @ ''.json'') =
        map_of (files w) (str_int (version (signed role)) @ ''.'' @ role_name @ ''.json''))"
proof -
  let ?v = "str_int (version (signed role))"
  have a: "role_name \<noteq> Timestamp_type \<longrightarrow>
      persist_filename role role_name =
        (if startswith (role_name @ ''.json'') (?v @ ''.'')
         then role_name @ ''.json'' else ?v @ ''.'' @ role_name @ ''.json'')"
    by (simp add: persist_filename_def Let_def)
  have c: "role_name = ?v \<or> startswith role_name (?v @ ''.'') \<longrightarrow>
      startswith (role_name @ ''.json'') (?v @ ''.'')"
    by (auto simp: startswith_iff)
  have f: "startswith (role_name @ ''.json'') (?v @ ''.'') \<Longrightarrow>
      persist_filename role role_name = role_name @ ''.json''"
    by (simp add: persist_filename_def Let_def)
  have ne: "?v @ ''.'' @ role_name @ ''.json'' \<noteq> role_name @ ''.json''"
    by (rule prefixed_name_differs)
  have b: "startswith (role_name @ ''.json'') (?v @ ''.'') \<and>
      persist env role role_name w = (Inr u, w') \<longrightarrow>
      files w' = (role_name @ ''.json'', role) # files w \<and>
      map_of (files w') (role_name @ ''.json'') = Some role \<and>
      map_of (files w') (?v @ ''.'' @ role_name @ ''.json'') =
        map_of (files w) (?v @ ''.'' @ role_name @ ''.json'')"
    using ne by (auto simp: persist_Inr_iff f simp del: append_assoc)
  from a c b show ?thesis by (intro conjI)
qed

theorem persist_prefix_only_when_missing_witness:
  "add_initial_metadata example_env [(''2'', Inr (doc 1 0 (Targets [] None)))] \<lparr>files = [], ticks = 0\<rparr> =
     (Inr True, \<lparr>files = [(''2.json'', doc 1 0 (Targets [] None))], ticks = 0\<rparr>) \<and>
   ''2'' = str_int (version (signed (doc 2 0 (Targets [] None)))) \<and>
   persist example_env (doc 2 0 (Targets [] None)) ''2''
       \<lparr>files = [(''2.json'', doc 1 0 (Targets [] None))], ticks = 0\<rparr> =
     (Inr (),
      \<lparr>files = [(''2.json'', doc 2 0 (Targets [] None)), (''2.json'', doc 1 0 (Targets [] None))],
       ticks = 0\<rparr>) \<and>
   map_of [(''2.json'', doc 2 0 (Targets [] None)), (''2.json'', doc 1 0 (Targets [] None))] ''2.json'' =
     Some (doc 2 0 (Targets [] None)) \<and>
   map_of [(''2.json'', doc 2 0 (Targets [] None)), (''2.json'', doc 1 0 (Targets [] None))] ''2.2.json'' =
     None \<and>
   persist_filename (doc 1 0 (Targets [] None)) ''2'' = ''1.2.json''"
proof -
  let ?d1 = "doc 1 0 (Targets [] None)"
  let ?d2 = "doc 2 0 (Targets [] None)"
  let ?w = "\<lparr>files = [(''2.json'', ?d1)], ticks = 0\<rparr>"
  let ?w' = "\<lparr>files = [(''2.json'', ?d2), (''2.json'', ?d1)], ticks = 0\<rparr>"
  have i: "add_initial_metadata example_env [(''2'', Inr ?d1)] \<lparr>files = [], ticks = 0\<rparr> = (Inr True, ?w)"
    by (simp add: run_defs)
  have v: "str_int (version (signed ?d2)) = ''2''" "str_int (version (signed ?d1)) = ''1''"
    by (simp_all add: run_defs)
  have p: "persist example_env ?d2 ''2'' ?w = (Inr (), ?w')"
    by (simp add: run_defs)
  have n: "''2'' \<noteq> Timestamp_type" by (simp add: Timestamp_type_def)
  from persist_prefix_only_when_missing[of "''2''" ?d1 example_env ?w "()" ?w'] n
  have 1: "persist_filename ?d1 ''2'' = ''1.2.json''"
    by (simp add: v)
  from persist_prefix_only_when_missing[of "''2''" ?d2 example_env ?w "()" ?w'] p
  have 2: "map_of [(''2.json'', ?d2), (''2.json'', ?d1)] ''2.json'' = Some ?d2 \<and>
      map_of [(''2.json'', ?d2), (''2.json'', ?d1)] ''2.2.json'' = None"
    by (simp add: v)
  from i v(1) p 1 2 show ?thesis by simp
qed

subsection \<open>The bins sweep without a top-level bin document\<close>

text \<open>
  Claim C5. When loading the top-level \<^verbatim>\<open>bin\<close> document fails with a storage error,
  \<^verbatim>\<open>bump_bins_roles\<close> returns \<^verbatim>\<open>False\<close> without raising and leaves the state as it was:
  no file is written and the clock is not read.
\<close>

theorem bump_bins_roles_bin_missing:
  assumes "storage_get env (files w) BIN = Inl StorageError"
  shows "bump_bins_roles env w = (Inr False, w)"
  using assms by (simp add: bump_bins_roles_def load_def)

theorem bump_bins_roles_bin_missing_witness:
  "storage_get example_env (files \<lparr>files = [], ticks = 0\<rparr>) BIN = Inl StorageError \<and>
   bump_bins_roles example_env \<lparr>files = [], ticks = 0\<rparr> = (Inr False, \<lparr>files = [], ticks = 0\<rparr>)"
proof -
  have h: "storage_get example_env (files \<lparr>files = [], ticks = 0\<rparr>) BIN = Inl StorageError"
    by (simp add: example_env_def latest_get_def)
  from bump_bins_roles_bin_missing[OF h] h show ?thesis by simp
qed

subsection \<open>The bump pair\<close>

text \<open>
  Claim C3. \<^verbatim>\<open>_bump_version\<close> adds exactly 1 to the version, an unbounded integer, so
  nothing wraps around. \<^verbatim>\<open>_bump_expiry\<close> sets the expiry to the clock's reading cut to
  whole seconds plus the days of the setting \<^verbatim>\<open><expiry_id>_EXPIRATION\<close>, and leaves the
  version alone. In a completed cycle the document written has the loaded version plus 1 and
  the expiry of its role class: every bin, whatever its name, takes \<^verbatim>\<open>bins_EXPIRATION\<close>,
  Snapshot \<^verbatim>\<open>snapshot_EXPIRATION\<close> and Timestamp \<^verbatim>\<open>timestamp_EXPIRATION\<close>.
\<close>

theorem bump_pair_version_and_expiry:
  "version (signed (bump_version role)) = version (signed role) + 1 \<and>
   (bump_expiry env role expiry_id w = (Inr role', w') \<longrightarrow>
      (\<exists>days. get_fresh_int env (expiry_id @ ''_EXPIRATION'') = Inr days \<and>
         expires (signed role') = replace_microsecond0 (clock env (ticks w)) + days * 86400000000) \<and>
      version (signed role') = version (signed role)) \<and>
   (add_targets_bin env bins_name target_files w = (Inr m, w') \<longrightarrow>
      (\<exists>old new days. storage_get env (files w) bins_name = Inr old \<and>
         get_fresh_int env ''bins_EXPIRATION'' = Inr days \<and>
         files w' = (persist_filename new bins_name, new) # files w \<and>
         version (signed new) = version (signed old) + 1 \<and>
         expires (signed new) = replace_microsecond0 (clock env (ticks w)) + days * 86400000000)) \<and>
   (bump_bins_role env bins_name w = (Inr (Some m), w') \<longrightarrow>
      (\<exists>old new days. storage_get env (files w) bins_name = Inr old \<and>
         get_fresh_int env ''bins_EXPIRATION'' = Inr days \<and>
         files w' = (persist_filename new bins_name, new) # files w \<and>
         version (signed new) = version (signed old) + 1 \<and>
         expires (signed new) =
           replace_microsecond0 (clock env (Suc (ticks w))) + days * 86400000000)) \<and>
   (update_snapshot env targets_meta w = (Inr v, w') \<longrightarrow>
      (\<exists>old new days. storage_get env (files w) Snapshot_type = Inr old \<and>
         get_fresh_int env ''snapshot_EXPIRATION'' = Inr days \<and>
         files w' = (persist_filename new Snapshot_type, new) # files w \<and>
         version (signed new) = version (signed old) + 1 \<and>
         expires (signed new) = replace_microsecond0 (clock env (ticks w)) + days * 86400000000)) \<and>
   (update_timestamp env snapshot_version w = (Inr timestamp, w') \<longrightarrow>
      (\<exists>old days. storage_get env (files w) Timestamp_type = Inr old \<and>
         get_fresh_int env ''timestamp_EXPIRATION'' = Inr days \<and>
         files w' = (''timestamp.json'', timestamp) # files w \<and>
         version (signed timestamp) = version (signed old) + 1 \<and>
         expires (signed timestamp) =
           replace_microsecond0 (clock env (ticks w)) + days * 86400000000))"
proof -
  have v: "version (signed (bump_version role)) = version (signed role) + 1"
    by (simp add: bump_version_def)
  have e: "bump_expiry env role expiry_id w = (Inr role', w') \<longrightarrow>
      (\<exists>days. get_fresh_int env (expiry_id @ ''_EXPIRATION'') = Inr days \<and>
         expires (signed role') = replace_microsecond0 (clock env (ticks w)) + days * 86400000000) \<and>
      version (signed role') = version (signed role)"
    by (auto simp: bump_expiry_Inr_iff)
  have a: "add_targets_bin env bins_name target_files w = (Inr m, w') \<longrightarrow>
      (\<exists>old new days. storage_get env (files w) bins_name = Inr old \<and>
         get_fresh_int env ''bins_EXPIRATION'' = Inr days \<and>
         files w' = (persist_filename new bins_name, new) # files w \<and>
         version (signed new) = version (signed old) + 1 \<and>
         expires (signed new) = replace_microsecond0 (clock env (ticks w)) + days * 86400000000)"
  proof
    assume "add_targets_bin env bins_name target_files w = (Inr m, w')"
    from add_targets_bin_Inr[OF this] obtain old mid new days where
      h: "storage_get env (files w) bins_name = Inr old"
         "set_targets target_files old = Inr mid"
         "get_fresh_int env ''bins_EXPIRATION'' = Inr days"
         "signed new = (signed mid)
             \<lparr>expires := replace_microsecond0 (clock env (ticks w)) + days * 86400000000,
              version := version (signed mid) + 1\<rparr>"
         "files w' = (persist_filename new bins_name, new) # files w"
      by blast
    from set_targets_frame[OF h(2)] h(4)
    have "version (signed new) = version (signed old) + 1"
      and "expires (signed new) = replace_microsecond0 (clock env (ticks w)) + days * 86400000000"
      by simp_all
    with h(1,3,5) show "\<exists>old new days. storage_get env (files w) bins_name = Inr old \<and>
         get_fresh_int env ''bins_EXPIRATION'' = Inr days \<and>
         files w' = (persist_filename new bins_name, new) # files w \<and>
         version (signed new) = version (signed old) + 1 \<and>
         expires (signed new) = replace_microsecond0 (clock env (ticks w)) + days * 86400000000"
      by blast
  qed
  have b: "bump_bins_role env bins_name w = (Inr (Some m), w') \<longrightarrow>
      (\<exists>old new days. storage_get env (files w) bins_name = Inr old \<and>
         get_fresh_int env ''bins_EXPIRATION'' = Inr days \<and>
         files w' = (persist_filename new bins_name, new) # files w \<and>
         version (signed new) = version (signed old) + 1 \<and>
         expires (signed new) =
           replace_microsecond0 (clock env (Suc (ticks w))) + days * 86400000000)"
  proof
    assume "bump_bins_role env bins_name w = (Inr (Some m), w')"
    from bump_bins_role_Some[OF this] obtain old new days where
      h: "storage_get env (files w) bins_name = Inr old"
         "get_fresh_int env ''bins_EXPIRATION'' = Inr days"
         "signed new = (signed old)
             \<lparr>expires := replace_microsecond0 (clock env (Suc (ticks w))) + days * 86400000000,
              version := version (signed old) + 1\<rparr>"
         "files w' = (persist_filename new bins_name, new) # files w"
      by blast
    from h(3) have "version (signed new) = version (signed old) + 1"
      and "expires (signed new) =
        replace_microsecond0 (clock env (Suc (ticks w))) + days * 86400000000"
      by simp_all
    with h(1,2,4) show "\<exists>old new days. storage_get env (files w) bins_name = Inr old \<and>
         get_fresh_int env ''bins_EXPIRATION'' = Inr days \<and>
         files w' = (persist_filename new bins_name, new) # files w \<and>
         version (signed new) = version (signed old) + 1 \<and>
         expires (signed new) =
           replace_microsecond0 (clock env (Suc (ticks w))) + days * 86400000000"
      by blast
  qed
  have s: "update_snapshot env targets_meta w = (Inr v, w') \<longrightarrow>
      (\<exists>old new days. storage_get env (files w) Snapshot_type = Inr old \<and>
         get_fresh_int env ''snapshot_EXPIRATION'' = Inr days \<and>
         files w' = (persist_filename new Snapshot_type, new) # files w \<and>
         version (signed new) = version (signed old) + 1 \<and>
         expires (signed new) = replace_microsecond0 (clock env (ticks w)) + days * 86400000000)"
  proof
    assume "update_snapshot env targets_meta w = (Inr v, w')"
    from update_snapshot_Inr[OF this] obtain old mid new days where
      h: "storage_get env (files w) Snapshot_type = Inr old"
         "set_metas targets_meta old = Inr mid"
         "get_fresh_int env ''snapshot_EXPIRATION'' = Inr days"
         "signed new = (signed mid)
             \<lparr>expires := replace_microsecond0 (clock env (ticks w)) + days * 86400000000,
              version := version (signed mid) + 1\<rparr>"
         "files w' = (persist_filename new Snapshot_type, new) # files w"
      by blast
    from set_metas_frame[OF h(2)] h(4)
    have "version (signed new) = version (signed old) + 1"
      and "expires (signed new) = replace_microsecond0 (clock env (ticks w)) + days * 86400000000"
      by simp_all
    with h(1,3,5) show "\<exists>old new days. storage_get env (files w) Snapshot_type = Inr old \<and>
         get_fresh_int env ''snapshot_EXPIRATION'' = Inr days \<and>
         files w' = (persist_filename new Snapshot_type, new) # files w \<and>
         version (signed new) = version (signed old) + 1 \<and>
         expires (signed new) = replace_microsecond0 (clock env (ticks w)) + days * 86400000000"
      by blast
  qed
  have t: "update_timestamp env snapshot_version w = (Inr timestamp, w') \<longrightarrow>
      (\<exists>old days. storage_get env (files w) Timestamp_type = Inr old \<and>
         get_fresh_int env ''timestamp_EXPIRATION'' = Inr days \<and>
         files w' = (''timestamp.json'', timestamp) # files w \<and>
         version (signed timestamp) = version (signed old) + 1 \<and>
         expires (signed timestamp) =
           replace_microsecond0 (clock env (ticks w)) + days * 86400000000)"
  proof
    assume "update_timestamp env snapshot_version w = (Inr timestamp, w')"
    from update_timestamp_Inr[OF this] obtain old mf days where
      h: "storage_get env (files w) Timestamp_type = Inr old"
         "get_fresh_int env ''timestamp_EXPIRATION'' = Inr days"
         "signed timestamp = (signed (set_snapshot_meta old mf))
             \<lparr>version := version (signed old) + 1,
              expires := replace_microsecond0 (clock env (ticks w)) + days * 86400000000\<rparr>"
         "files w' = (''timestamp.json'', timestamp) # files w"
      by blast
    from h(3) have "version (signed timestamp) = version (signed old) + 1"
      and "expires (signed timestamp) =
        replace_microsecond0 (clock env (ticks w)) + days * 86400000000"
      by simp_all
    with h(1,2,4) show "\<exists>old days. storage_get env (files w) Timestamp_type = Inr old \<and>
         get_fresh_int env ''timestamp_EXPIRATION'' = Inr days \<and>
         files w' = (''timestamp.json'', timestamp) # files w \<and>
         version (signed timestamp) = version (signed old) + 1 \<and>
         expires (signed timestamp) =
           replace_microsecond0 (clock env (ticks w)) + days * 86400000000"
      by blast
  qed
  from v e a b s t show ?thesis by (intro conjI)
qed

theorem bump_pair_version_and_expiry_witness:
  "bump_bins_role example_env ''bins-0'' example_world =
     (Inr (Some (''bins-0'', 2)),
      \<lparr>files = (''2.bins-0.json'', signed_doc 2 86405000000 (Targets [] None)) # example_files,
       ticks = 2\<rparr>) \<and>
   storage_get example_env (files example_world) ''bins-0'' = Inr (doc 1 7000000 (Targets [] None)) \<and>
   get_fresh_int example_env ''bins_EXPIRATION'' = Inr 1 \<and>
   replace_microsecond0 (clock example_env (Suc (ticks example_world))) + 1 * 86400000000 =
     86405000000 \<and>
   (\<exists>old new days.
      storage_get example_env (files example_world) ''bins-0'' = Inr old \<and>
      get_fresh_int example_env ''bins_EXPIRATION'' = Inr days \<and>
      files \<lparr>files = (''2.bins-0.json'', signed_doc 2 86405000000 (Targets [] None)) # example_files,
             ticks = 2\<rparr> = (persist_filename new ''bins-0'', new) # files example_world \<and>
      version (signed new) = version (signed old) + 1 \<and>
      expires (signed new) =
        replace_microsecond0 (clock example_env (Suc (ticks example_world))) + days * 86400000000)"
proof -
  let ?w' = "\<lparr>files = (''2.bins-0.json'', signed_doc 2 86405000000 (Targets [] None)) # example_files,
              ticks = 2\<rparr>"
  have h: "bump_bins_role example_env ''bins-0'' example_world = (Inr (Some (''bins-0'', 2)), ?w')"
    by (simp add: run_defs)
  have g: "storage_get example_env (files example_world) ''bins-0'' = Inr (doc 1 7000000 (Targets [] None))"
    by (simp add: run_defs)
  have d: "get_fresh_int example_env ''bins_EXPIRATION'' = Inr 1"
    by (simp add: example_env_def)
  have c: "replace_microsecond0 (clock example_env (Suc (ticks example_world))) + 1 * 86400000000 =
     86405000000"
    by (simp add: example_env_def replace_microsecond0_def)
  from bump_pair_version_and_expiry
    [where env = example_env and bins_name = "''bins-0''" and w = example_world
       and m = "(''bins-0'', 2)" and w' = ?w' and role = "doc 1 0 Root" and role' = "doc 1 0 Root"
       and expiry_id = BINS and target_files = "[]" and targets_meta = "[]" and v = 0
       and snapshot_version = 0 and timestamp = "doc 1 0 Root"] h
  have "\<exists>old new days.
      storage_get example_env (files example_world) ''bins-0'' = Inr old \<and>
      get_fresh_int example_env ''bins_EXPIRATION'' = Inr days \<and>
      files ?w' = (persist_filename new ''bins-0'', new) # files example_world \<and>
      version (signed new) = version (signed old) + 1 \<and>
      expires (signed new) =
        replace_microsecond0 (clock example_env (Suc (ticks example_world))) + days * 86400000000"
    by blast
  with h g d c show ?thesis by blast
qed

subsection \<open>Propagation to Snapshot and Timestamp\<close>

lemma snapshot_json_unprefixed: "\<not> startswith ''snapshot.json'' (str_int v @ ''.'')"
proof
  assume "startswith ''snapshot.json'' (str_int v @ ''.'')"
  then obtain t where "''snapshot.json'' = str_int v @ ''.'' @ t"
    unfolding startswith_iff by auto
  then have "hd ''snapshot.json'' = hd (str_int v @ ''.'' @ t)"
    by (rule arg_cong)
  then have "hd (str_int v) = CHR ''s''"
    using str_int_nonempty[of v] by simp
  then show False using hd_str_int[of v] by simp
qed

lemma snapshot_filename:
  "persist_filename snapshot Snapshot_type = str_int (version (signed snapshot)) @ ''.snapshot.json''"
  using snapshot_json_unprefixed
  by (simp add: persist_filename_def Snapshot_type_def Timestamp_type_def)

lemma set_snapshot_meta_payload:
  "payload (signed (set_snapshot_meta timestamp mf)) = Timestamp mf' \<Longrightarrow> mf' = mf"
  by (auto simp: set_snapshot_meta_def split: RolePayload.splits)

text \<open>What the call \<^verbatim>\<open>self._update_timestamp(self._update_snapshot(targets_meta))\<close> did when it
  completed: the two latest files are the new Timestamp and, before it, the new Snapshot.\<close>

lemma propagate_Inr:
  assumes "and_then (update_snapshot env targets_meta) (update_timestamp env) w = (Inr timestamp, w')"
  shows "\<exists>old mid snapshot days.
           storage_get env (files w) Snapshot_type = Inr old \<and>
           set_metas targets_meta old = Inr mid \<and>
           get_fresh_int env ''snapshot_EXPIRATION'' = Inr days \<and>
           signed snapshot = (signed mid)
             \<lparr>expires := replace_microsecond0 (clock env (ticks w)) + days * 86400000000,
              version := version (signed mid) + 1\<rparr> \<and>
           files w' = (''timestamp.json'', timestamp) #
                      (str_int (version (signed snapshot)) @ ''.snapshot.json'', snapshot) # files w \<and>
           (\<exists>old_timestamp.
              storage_get env
                ((str_int (version (signed snapshot)) @ ''.snapshot.json'', snapshot) # files w)
                Timestamp_type = Inr old_timestamp \<and>
              version (signed timestamp) = version (signed old_timestamp) + 1) \<and>
           (\<forall>mf. payload (signed timestamp) = Timestamp mf \<longrightarrow>
              mf = \<lparr>mf_version = version (signed snapshot), mf_length = None, mf_hashes = None\<rparr>)"
proof -
  from assms obtain v w1 where
    s: "update_snapshot env targets_meta w = (Inr v, w1)" and
    t: "update_timestamp env v w1 = (Inr timestamp, w')"
    by (auto simp: and_then_Inr_iff)
  from update_snapshot_Inr[OF s] obtain old mid snapshot days where
    h: "storage_get env (files w) Snapshot_type = Inr old"
       "set_metas targets_meta old = Inr mid"
       "get_fresh_int env ''snapshot_EXPIRATION'' = Inr days"
       "signed snapshot = (signed mid)
             \<lparr>expires := replace_microsecond0 (clock env (ticks w)) + days * 86400000000,
              version := version (signed mid) + 1\<rparr>"
       "v = version (signed snapshot)"
       "files w1 = (persist_filename snapshot Snapshot_type, snapshot) # files w"
    by blast
  from update_timestamp_Inr[OF t] obtain old_timestamp mf where
    k: "storage_get env (files w1) Timestamp_type = Inr old_timestamp"
       "MetaFile_new v = Inr mf"
       "signed timestamp = (signed (set_snapshot_meta old_timestamp mf))
             \<lparr>version := version (signed old_timestamp) + 1,
              expires := expires (signed timestamp)\<rparr>"
       "files w' = (''timestamp.json'', timestamp) # files w1"
    by force
  from k(2) h(5) have mf:
    "mf = \<lparr>mf_version = version (signed snapshot), mf_length = None, mf_hashes = None\<rparr>"
    by (auto simp: MetaFile_new_def split: if_splits)
  have f: "files w' = (''timestamp.json'', timestamp) #
                      (str_int (version (signed snapshot)) @ ''.snapshot.json'', snapshot) # files w"
    by (simp add: k(4) h(6) snapshot_filename)
  have p: "\<forall>mf'. payload (signed timestamp) = Timestamp mf' \<longrightarrow>
      mf' = \<lparr>mf_version = version (signed snapshot), mf_length = None, mf_hashes = None\<rparr>"
  proof (intro allI impI)
    fix mf' assume "payload (signed timestamp) = Timestamp mf'"
    moreover have "payload (signed timestamp) = payload (signed (set_snapshot_meta old_timestamp mf))"
      by (subst k(3)) simp
    ultimately have "payload (signed (set_snapshot_meta old_timestamp mf)) = Timestamp mf'"
      by simp
    then show "mf' = \<lparr>mf_version = version (signed snapshot), mf_length = None, mf_hashes = None\<rparr>"
      using mf by (simp add: set_snapshot_meta_payload)
  qed
  have o: "\<exists>old_timestamp.
      storage_get env
        ((str_int (version (signed snapshot)) @ ''.snapshot.json'', snapshot) # files w)
        Timestamp_type = Inr old_timestamp \<and>
      version (signed timestamp) = version (signed old_timestamp) + 1"
  proof -
    have "version (signed timestamp) = version (signed old_timestamp) + 1"
      by (subst k(3)) simp
    with k(1) show ?thesis by (auto simp: h(6) snapshot_filename)
  qed
  from h(1-4) f o p show ?thesis by blast
qed

text \<open>The loop of \<^verbatim>\<open>publish_targets_metas\<close> only reads: it leaves the state as it was, and
  it appends an entry for every bin name it is given.\<close>

lemma publish_loop_frame:
  "publish_loop env snapshot bins_names targets_meta w = (r, w') \<Longrightarrow> w' = w"
proof (induction bins_names arbitrary: targets_meta)
  case Nil
  then show ?case by (simp add: ret_def)
next
  case (Cons bins_name rest)
  then show ?case
    by (auto simp: and_then_def load_def lift_def split: sum.splits)
qed

lemma publish_loop_names:
  "publish_loop env snapshot bins_names targets_meta w = (Inr result, w') \<Longrightarrow>
     map fst result = map fst targets_meta @ bins_names"
proof (induction bins_names arbitrary: targets_meta)
  case Nil
  then show ?case by (simp add: ret_def)
next
  case (Cons bins_name rest)
  then show ?case
    by (auto simp: and_then_def load_def lift_def py_ne_def split: sum.splits)
qed

lemma publish_targets_metas_propagates:
  assumes "storage_get env (files w) Snapshot_type = Inr loaded"
    and "publish_loop env loaded bins_names [] w = (Inr changed, w1)"
    and "changed \<noteq> []"
    and "publish_targets_metas env bins_names w = (Inr u, w')"
  shows "\<exists>timestamp.
           and_then (update_snapshot env changed) (update_timestamp env) w = (Inr timestamp, w')"
proof -
  from assms(2) have "w1 = w" by (rule publish_loop_frame)
  with assms show ?thesis
    by (auto simp: publish_targets_metas_def and_then_Inr_iff load_iff ret_iff)
qed

lemma bump_bins_roles_propagates:
  assumes "storage_get env (files w) BIN = Inr bin"
    and "delegations_succinct_roles bin = Inr (Some sr)"
    and "bump_bins_loop env (get_roles sr) [] w = (Inr changed, w1)"
    and "changed \<noteq> []"
    and "bump_bins_roles env w = (Inr r, w')"
  shows "r \<and> (\<exists>timestamp.
           and_then (update_snapshot env changed) (update_timestamp env) w1 = (Inr timestamp, w'))"
  using assms
  by (auto simp: bump_bins_roles_def load_def and_then_Inr_iff lift_Inr_iff ret_iff)

lemma bump_snapshot_propagates:
  assumes "storage_get env (files w) Snapshot_type = Inr loaded"
    and "expires (signed loaded) - clock env (ticks w) < hours_before_expire env * 3600000000"
    and "bump_snapshot env w = (Inr r, w')"
  shows "r \<and> (\<exists>timestamp.
           and_then (update_snapshot env []) (update_timestamp env) (w\<lparr>ticks := Suc (ticks w)\<rparr>) =
             (Inr timestamp, w'))"
  using assms
  by (auto simp: bump_snapshot_def load_def and_then_Inr_iff near_expiry_iff ret_iff
      split: if_splits)

lemma propagated_files:
  assumes "and_then (update_snapshot env targets_meta) (update_timestamp env) w0 = (Inr timestamp, w')"
  shows "\<exists>timestamp snapshot rest.
           files w' = (''timestamp.json'', timestamp) #
                      (str_int (version (signed snapshot)) @ ''.snapshot.json'', snapshot) # rest \<and>
           (\<forall>mf. payload (signed timestamp) = Timestamp mf \<longrightarrow>
              mf_version mf = version (signed snapshot))"
proof -
  from propagate_Inr[OF assms] obtain snapshot where
    "files w' = (''timestamp.json'', timestamp) #
                (str_int (version (signed snapshot)) @ ''.snapshot.json'', snapshot) # files w0"
    "\<forall>mf. payload (signed timestamp) = Timestamp mf \<longrightarrow>
        mf = \<lparr>mf_version = version (signed snapshot), mf_length = None, mf_hashes = None\<rparr>"
    by blast
  then show ?thesis by fastforce
qed

text \<open>
  Claim C2. After a completed propagation (\<^verbatim>\<open>publish_targets_metas\<close> whose changed-set is
  not empty, \<^verbatim>\<open>bump_bins_roles\<close> that bumped a bin, \<^verbatim>\<open>bump_snapshot\<close> inside the
  freshness window) the latest file is \<^verbatim>\<open>timestamp.json\<close> and the one before it is the new
  Snapshot under its version-prefixed name; the \<^verbatim>\<open>snapshot_meta\<close> of the Timestamp document
  written has the version of the Snapshot document written.
\<close>

theorem timestamp_records_new_snapshot_version:
  "(storage_get env (files w) Snapshot_type = Inr loaded \<and>
    publish_loop env loaded bins_names [] w = (Inr changed, w1) \<and> changed \<noteq> [] \<and>
    publish_targets_metas env bins_names w = (Inr u, w')
    \<longrightarrow> (\<exists>timestamp snapshot rest.
           files w' = (''timestamp.json'', timestamp) #
                      (str_int (version (signed snapshot)) @ ''.snapshot.json'', snapshot) # rest \<and>
           (\<forall>mf. payload (signed timestamp) = Timestamp mf \<longrightarrow>
              mf_version mf = version (signed snapshot)))) \<and>
   (storage_get env (files w) BIN = Inr bin \<and>
    delegations_succinct_roles bin = Inr (Some sr) \<and>
    bump_bins_loop env (get_roles sr) [] w = (Inr changed, w1) \<and> changed \<noteq> [] \<and>
    bump_bins_roles env w = (Inr r, w')
    \<longrightarrow> (\<exists>timestamp snapshot rest.
           files w' = (''timestamp.json'', timestamp) #
                      (str_int (version (signed snapshot)) @ ''.snapshot.json'', snapshot) # rest \<and>
           (\<forall>mf. payload (signed timestamp) = Timestamp mf \<longrightarrow>
              mf_version mf = version (signed snapshot)))) \<and>
   (storage_get env (files w) Snapshot_type = Inr loaded \<and>
    expires (signed loaded) - clock env (ticks w) < hours_before_expire env * 3600000000 \<and>
    bump_snapshot env w = (Inr r, w')
    \<longrightarrow> (\<exists>timestamp snapshot rest.
           files w' = (''timestamp.json'', timestamp) #
                      (str_int (version (signed snapshot)) @ ''.snapshot.json'', snapshot) # rest \<and>
           (\<forall>mf. payload (signed timestamp) = Timestamp mf \<longrightarrow>
              mf_version mf = version (signed snapshot))))"
proof (intro conjI impI)
  assume "storage_get env (files w) Snapshot_type = Inr loaded \<and>
    publish_loop env loaded bins_names [] w = (Inr changed, w1) \<and> changed \<noteq> [] \<and>
    publish_targets_metas env bins_names w = (Inr u, w')"
  then obtain timestamp where
    "and_then (update_snapshot env changed) (update_timestamp env) w = (Inr timestamp, w')"
    using publish_targets_metas_propagates by blast
  then show "\<exists>timestamp snapshot rest.
           files w' = (''timestamp.json'', timestamp) #
                      (str_int (version (signed snapshot)) @ ''.snapshot.json'', snapshot) # rest \<and>
           (\<forall>mf. payload (signed timestamp) = Timestamp mf \<longrightarrow>
              mf_version mf = version (signed snapshot))"
    by (rule propagated_files)
next
  assume "storage_get env (files w) BIN = Inr bin \<and>
    delegations_succinct_roles bin = Inr (Some sr) \<and>
    bump_bins_loop env (get_roles sr) [] w = (Inr changed, w1) \<and> changed \<noteq> [] \<and>
    bump_bins_roles env w = (Inr r, w')"
  then obtain timestamp where
    "and_then (update_snapshot env changed) (update_timestamp env) w1 = (Inr timestamp, w')"
    using bump_bins_roles_propagates by blast
  then show "\<exists>timestamp snapshot rest.
           files w' = (''timestamp.json'', timestamp) #
                      (str_int (version (signed snapshot)) @ ''.snapshot.json'', snapshot) # rest \<and>
           (\<forall>mf. payload (signed timestamp) = Timestamp mf \<longrightarrow>
              mf_version mf = version (signed snapshot))"
    by (rule propagated_files)
next
  assume "storage_get env (files w) Snapshot_type = Inr loaded \<and>
    expires (signed loaded) - clock env (ticks w) < hours_before_expire env * 3600000000 \<and>
    bump_snapshot env w = (Inr r, w')"
  then obtain timestamp where
    "and_then (update_snapshot env []) (update_timestamp env) (w\<lparr>ticks := Suc (ticks w)\<rparr>) =
       (Inr timestamp, w')"
    using bump_snapshot_propagates by blast
  then show "\<exists>timestamp snapshot rest.
           files w' = (''timestamp.json'', timestamp) #
                      (str_int (version (signed snapshot)) @ ''.snapshot.json'', snapshot) # rest \<and>
           (\<forall>mf. payload (signed timestamp) = Timestamp mf \<longrightarrow>
              mf_version mf = version (signed snapshot))"
    by (rule propagated_files)
qed

theorem timestamp_records_new_snapshot_version_witness:
  "storage_get example_env (files example_world) BIN =
     Inr (doc 1 7000000
            (Targets [] (Some \<lparr>succinct_roles = Some \<lparr>bit_length = 1, name_prefix = ''bins''\<rparr>\<rparr>))) \<and>
   fst (bump_bins_loop example_env (get_roles \<lparr>bit_length = 1, name_prefix = ''bins''\<rparr>) []
          example_world) = Inr [(''bins-0'', 2), (''bins-1'', 2)] \<and>
   fst (bump_bins_roles example_env example_world) = Inr True \<and>
   (\<exists>timestamp snapshot rest.
      files (snd (bump_bins_roles example_env example_world)) =
        (''timestamp.json'', timestamp) #
        (str_int (version (signed snapshot)) @ ''.snapshot.json'', snapshot) # rest \<and>
      (\<forall>mf. payload (signed timestamp) = Timestamp mf \<longrightarrow>
         mf_version mf = version (signed snapshot)))"
proof -
  let ?sr = "\<lparr>bit_length = 1, name_prefix = ''bins''\<rparr>"
  let ?bin = "doc 1 7000000 (Targets [] (Some \<lparr>succinct_roles = Some ?sr\<rparr>))"
  have b: "storage_get example_env (files example_world) BIN = Inr ?bin"
    by (simp add: run_defs)
  have d: "delegations_succinct_roles ?bin = Inr (Some ?sr)"
    by (simp add: run_defs)
  have l: "fst (bump_bins_loop example_env (get_roles ?sr) [] example_world) =
      Inr [(''bins-0'', 2), (''bins-1'', 2)]"
    by (simp add: run_defs upt_rec)
  have r: "fst (bump_bins_roles example_env example_world) = Inr True"
    by (simp add: run_defs upt_rec)
  from l have l': "bump_bins_loop example_env (get_roles ?sr) [] example_world =
      (Inr [(''bins-0'', 2), (''bins-1'', 2)],
       snd (bump_bins_loop example_env (get_roles ?sr) [] example_world))"
    by (metis prod.collapse)
  from r have r': "bump_bins_roles example_env example_world =
      (Inr True, snd (bump_bins_roles example_env example_world))"
    by (metis prod.collapse)
  from timestamp_records_new_snapshot_version
    [where env = example_env and w = example_world and bin = ?bin and sr = ?sr
       and changed = "[(''bins-0'', 2), (''bins-1'', 2)]"
       and ?w1.0 = "snd (bump_bins_loop example_env (get_roles ?sr) [] example_world)"
       and r = True and w' = "snd (bump_bins_roles example_env example_world)"
       and loaded = ?bin and bins_names = "[]" and u = "()"]
    b d l' r'
  have "\<exists>timestamp snapshot rest.
      files (snd (bump_bins_roles example_env example_world)) =
        (''timestamp.json'', timestamp) #
        (str_int (version (signed snapshot)) @ ''.snapshot.json'', snapshot) # rest \<and>
      (\<forall>mf. payload (signed timestamp) = Timestamp mf \<longrightarrow>
         mf_version mf = version (signed snapshot))"
    by blast
  with b l r show ?thesis by blast
qed

subsection \<open>The snapshot sweep\<close>

text \<open>
  Claim C6. When \<^verbatim>\<open>bump_snapshot\<close> finds Snapshot inside the freshness window and completes,
  it returns \<^verbatim>\<open>True\<close> having written a new Snapshot and then a new Timestamp, though no bin
  changed. The new Snapshot is the loaded one with its version raised by 1 and its expiry
  renewed: the payload, and with it the map from bin file names to versions, is the same,
  and only version, expiry and signatures differ.
\<close>

theorem bump_snapshot_keeps_meta:
  assumes "storage_get env (files w) Snapshot_type = Inr loaded"
    and "expires (signed loaded) - clock env (ticks w) < hours_before_expire env * 3600000000"
    and "bump_snapshot env w = (Inr r, w')"
  shows "r \<and>
    (\<exists>snapshot timestamp days.
       get_fresh_int env ''snapshot_EXPIRATION'' = Inr days \<and>
       files w' = (''timestamp.json'', timestamp) #
                  (str_int (version (signed loaded) + 1) @ ''.snapshot.json'', snapshot) # files w \<and>
       signed snapshot = (signed loaded)
         \<lparr>expires := replace_microsecond0 (clock env (Suc (ticks w))) + days * 86400000000,
          version := version (signed loaded) + 1\<rparr> \<and>
       payload (signed snapshot) = payload (signed loaded) \<and>
       (\<exists>old_timestamp.
          storage_get env
            ((str_int (version (signed loaded) + 1) @ ''.snapshot.json'', snapshot) # files w)
            Timestamp_type = Inr old_timestamp \<and>
          version (signed timestamp) = version (signed old_timestamp) + 1) \<and>
       (\<forall>mf. payload (signed timestamp) = Timestamp mf \<longrightarrow>
          mf_version mf = version (signed loaded) + 1))"
proof -
  let ?w0 = "w\<lparr>ticks := Suc (ticks w)\<rparr>"
  from bump_snapshot_propagates[OF assms] obtain timestamp where r: r and
    p: "and_then (update_snapshot env []) (update_timestamp env) ?w0 = (Inr timestamp, w')"
    by blast
  from propagate_Inr[OF p] obtain old mid snapshot days where
    h: "storage_get env (files ?w0) Snapshot_type = Inr old"
       "set_metas [] old = Inr mid"
       "get_fresh_int env ''snapshot_EXPIRATION'' = Inr days"
       "signed snapshot = (signed mid)
             \<lparr>expires := replace_microsecond0 (clock env (ticks ?w0)) + days * 86400000000,
              version := version (signed mid) + 1\<rparr>"
       "files w' = (''timestamp.json'', timestamp) #
                   (str_int (version (signed snapshot)) @ ''.snapshot.json'', snapshot) # files ?w0"
       "\<exists>old_timestamp.
              storage_get env
                ((str_int (version (signed snapshot)) @ ''.snapshot.json'', snapshot) # files ?w0)
                Timestamp_type = Inr old_timestamp \<and>
              version (signed timestamp) = version (signed old_timestamp) + 1"
       "\<forall>mf. payload (signed timestamp) = Timestamp mf \<longrightarrow>
              mf = \<lparr>mf_version = version (signed snapshot), mf_length = None, mf_hashes = None\<rparr>"
    by blast
  from h(1,2) assms(1) have mid: "mid = loaded" by simp
  have s: "signed snapshot = (signed loaded)
         \<lparr>expires := replace_microsecond0 (clock env (Suc (ticks w))) + days * 86400000000,
          version := version (signed loaded) + 1\<rparr>"
    using h(4) mid by simp
  then have v: "version (signed snapshot) = version (signed loaded) + 1"
    and pl: "payload (signed snapshot) = payload (signed loaded)"
    by simp_all
  have f: "files w' = (''timestamp.json'', timestamp) #
      (str_int (version (signed loaded) + 1) @ ''.snapshot.json'', snapshot) # files w"
    using h(5) v by simp
  have o: "\<exists>old_timestamp.
          storage_get env
            ((str_int (version (signed loaded) + 1) @ ''.snapshot.json'', snapshot) # files w)
            Timestamp_type = Inr old_timestamp \<and>
          version (signed timestamp) = version (signed old_timestamp) + 1"
    using h(6) v by simp
  have m: "\<forall>mf. payload (signed timestamp) = Timestamp mf \<longrightarrow>
          mf_version mf = version (signed loaded) + 1"
    using h(7) v by fastforce
  from r h(3) f s pl o m show ?thesis by blast
qed

theorem bump_snapshot_keeps_meta_witness:
  "storage_get example_env (files example_world) Snapshot_type =
     Inr (doc 1 7000000 (Snapshot example_meta)) \<and>
   expires (signed (doc 1 7000000 (Snapshot example_meta))) - clock example_env (ticks example_world)
     < hours_before_expire example_env * 3600000000 \<and>
   bump_snapshot example_env example_world =
     (Inr True,
      \<lparr>files =
         (''timestamp.json'',
            signed_doc 2 86405000000 (Timestamp \<lparr>mf_version = 2, mf_length = None, mf_hashes = None\<rparr>)) #
         (''2.snapshot.json'', signed_doc 2 86405000000 (Snapshot example_meta)) # example_files,
       ticks = 3\<rparr>) \<and>
   (\<exists>snapshot timestamp.
      files \<lparr>files =
         (''timestamp.json'',
            signed_doc 2 86405000000 (Timestamp \<lparr>mf_version = 2, mf_length = None, mf_hashes = None\<rparr>)) #
         (''2.snapshot.json'', signed_doc 2 86405000000 (Snapshot example_meta)) # example_files,
       ticks = 3\<rparr> =
        (''timestamp.json'', timestamp) #
        (str_int (version (signed (doc 1 7000000 (Snapshot example_meta))) + 1) @ ''.snapshot.json'',
         snapshot) # files example_world \<and>
      payload (signed snapshot) = payload (signed (doc 1 7000000 (Snapshot example_meta))))"
proof -
  let ?loaded = "doc 1 7000000 (Snapshot example_meta)"
  let ?w' = "\<lparr>files =
         (''timestamp.json'',
            signed_doc 2 86405000000 (Timestamp \<lparr>mf_version = 2, mf_length = None, mf_hashes = None\<rparr>)) #
         (''2.snapshot.json'', signed_doc 2 86405000000 (Snapshot example_meta)) # example_files,
       ticks = 3\<rparr>"
  have a: "storage_get example_env (files example_world) Snapshot_type = Inr ?loaded"
    by (simp add: run_defs)
  have b: "expires (signed ?loaded) - clock example_env (ticks example_world)
     < hours_before_expire example_env * 3600000000"
    by (simp add: run_defs)
  have c: "bump_snapshot example_env example_world = (Inr True, ?w')"
    by (simp add: run_defs)
  from bump_snapshot_keeps_meta[OF a b c]
  have "\<exists>snapshot timestamp.
      files ?w' =
        (''timestamp.json'', timestamp) #
        (str_int (version (signed ?loaded) + 1) @ ''.snapshot.json'', snapshot) # files example_world \<and>
      payload (signed snapshot) = payload (signed ?loaded)"
    by blast
  with a b c show ?thesis by blast
qed

subsection \<open>Publishing a bin whose version Snapshot already records\<close>

text \<open>
  Claim C1 says that a listed bin enters the changed-set only when its stored version differs
  from the version Snapshot records for it, and that an empty changed-set leaves Snapshot and
  Timestamp alone. The loop compares the recorded \<^verbatim>\<open>MetaFile\<close> object with the integer
  version, and the two are never equal: every listed bin enters the changed-set. In the
  example repository Snapshot records version 1 for \<^verbatim>\<open>bins-0\<close> and the stored document of
  \<^verbatim>\<open>bins-0\<close> has version 1, yet publishing \<^verbatim>\<open>bins-0\<close> writes Snapshot and Timestamp at
  version 2.
\<close>

theorem publish_targets_metas_republishes_unchanged_bin:
  "storage_get example_env (files example_world) ''bins-0'' = Inr (doc 1 7000000 (Targets [] None)) \<and>
   storage_get example_env (files example_world) Snapshot_type =
     Inr (doc 1 7000000 (Snapshot example_meta)) \<and>
   meta_getitem (doc 1 7000000 (Snapshot example_meta)) ''bins-0.json'' =
     Inr \<lparr>mf_version = 1, mf_length = None, mf_hashes = None\<rparr> \<and>
   publish_targets_metas example_env [''bins-0''] example_world =
     (Inr (),
      \<lparr>files =
         (''timestamp.json'',
            signed_doc 2 86405000000 (Timestamp \<lparr>mf_version = 2, mf_length = None, mf_hashes = None\<rparr>)) #
         (''2.snapshot.json'', signed_doc 2 86405000000 (Snapshot example_meta)) # example_files,
       ticks = 2\<rparr>)"
  by (simp add: run_defs)

subsection \<open>Ingest: a bin that fails\<close>

lemma add_targets_loop_append:
  "add_targets_loop env (xs @ ys) targets_meta =
     and_then (add_targets_loop env xs targets_meta) (add_targets_loop env ys)"
proof (induction xs arbitrary: targets_meta)
  case Nil
  show ?case by (simp add: and_then_def ret_def)
next
  case (Cons x xs)
  obtain bins_name target_files where x: "x = (bins_name, target_files)" by (cases x)
  show ?case
    by (auto simp: x Cons and_then_def split: prod.splits sum.splits)
qed

lemma add_targets_loop_files:
  "add_targets_loop env groups targets_meta w = (Inr result, w') \<Longrightarrow>
     \<exists>written. files w' = written @ files w \<and> length written = length groups \<and>
       map fst result = map fst targets_meta @ map fst groups"
proof (induction groups arbitrary: targets_meta w)
  case Nil
  then show ?case by (simp add: ret_def)
next
  case (Cons g groups)
  obtain bins_name target_files where g: "g = (bins_name, target_files)" by (cases g)
  from Cons.prems obtain m w1 where
    b: "add_targets_bin env bins_name target_files w = (Inr m, w1)" and
    l: "add_targets_loop env groups (targets_meta @ [m]) w1 = (Inr result, w')"
    by (auto simp: g and_then_Inr_iff)
  from add_targets_bin_Inr[OF b] obtain new where
    f: "files w1 = (persist_filename new bins_name, new) # files w" and m: "fst m = bins_name"
    by auto
  from Cons.IH[OF l] obtain written where
    "files w' = written @ files w1" "length written = length groups"
    "map fst result = map fst (targets_meta @ [m]) @ map fst groups"
    by blast
  then have "files w' = (written @ [(persist_filename new bins_name, new)]) @ files w \<and>
      length (written @ [(persist_filename new bins_name, new)]) = length (g # groups) \<and>
      map fst result = map fst targets_meta @ map fst (g # groups)"
    by (simp add: f m g)
  then show ?case by blast
qed

text \<open>A bin's cycle that raises has written nothing.\<close>

lemma add_targets_bin_Inl_files:
  assumes "add_targets_bin env bins_name target_files w = (Inl e, w')"
  shows "files w' = files w"
proof -
  have bump: "files w1 = files w0" if "bump_expiry env role expiry_id w0 = (r, w1)"
    for role expiry_id w0 r w1
    using that
    by (auto simp: bump_expiry_def and_then_def datetime_now_def lift_def ret_def
        split: sum.splits)
  have sgn: "w1 = w0" if "sign env role role_name w0 = (r, w1)" for role role_name w0 r w1
    using that by (auto simp: sign_def and_then_def lift_def split: sum.splits)
  have pst: "files w1 = files w0" if "persist env role role_name w0 = (Inl e', w1)"
    for role role_name w0 e' w1
    using that by (auto simp: persist_def to_file_def split: option.splits)
  show ?thesis
  proof (cases "storage_get env (files w) bins_name")
    case (Inl a)
    with assms show ?thesis by (simp add: add_targets_bin_def and_then_def load_def)
  next
    case (Inr loaded)
    show ?thesis
    proof (cases "set_targets target_files loaded")
      case (Inl a)
      with Inr assms show ?thesis
        by (simp add: add_targets_bin_def and_then_def load_def lift_def)
    next
      case mid: (Inr mid)
      obtain r1 w1 where b: "bump_expiry env mid BINS w = (r1, w1)" by (cases "bump_expiry env mid BINS w")
      show ?thesis
      proof (cases r1)
        case (Inl a)
        with Inr mid b assms bump[OF b] show ?thesis
          by (simp add: add_targets_bin_def and_then_def load_def lift_def)
      next
        case bumped: (Inr bumped)
        obtain r2 w2 where s: "sign env (bump_version bumped) BINS w1 = (r2, w2)"
          by (cases "sign env (bump_version bumped) BINS w1")
        show ?thesis
        proof (cases r2)
          case (Inl a)
          with Inr mid b bumped s assms bump[OF b] sgn[OF s] show ?thesis
            by (simp add: add_targets_bin_def and_then_def load_def lift_def)
        next
          case new: (Inr new)
          obtain r3 w3 where p: "persist env new bins_name w2 = (r3, w3)"
            by (cases "persist env new bins_name w2")
          show ?thesis
          proof (cases r3)
            case (Inl a)
            with Inr mid b bumped s new p assms bump[OF b] sgn[OF s] pst[of new bins_name w2 a w3]
            show ?thesis
              by (simp add: add_targets_bin_def and_then_def load_def lift_def)
          next
            case (Inr u)
            with \<open>storage_get env (files w) bins_name = Inr loaded\<close> mid b bumped s new p assms
            show ?thesis
              by (simp add: add_targets_bin_def and_then_def load_def lift_def ret_def)
          qed
        qed
      qed
    qed
  qed
qed

text \<open>
  Claim C4 says that in \<^verbatim>\<open>add_targets\<close> a bin that fails does not stop the other bins of
  the batch and that the method returns a result. The second loop has no \<^verbatim>\<open>try\<close>: the
  first exception ends the method. In the example repository without the document of
  \<^verbatim>\<open>bins-0\<close>, a batch for \<^verbatim>\<open>bins-0\<close> and \<^verbatim>\<open>bins-1\<close> raises the storage error of
  \<^verbatim>\<open>bins-0\<close> and writes nothing, although \<^verbatim>\<open>bins-1\<close> is there to be updated.
\<close>

theorem add_targets_failing_bin_stops_batch:
  "get_role_for_target example_env \<lparr>bit_length = 1, name_prefix = ''bins''\<rparr> ''a.txt'' = ''bins-0'' \<and>
   get_role_for_target example_env \<lparr>bit_length = 1, name_prefix = ''bins''\<rparr> ''b.txt'' = ''bins-1'' \<and>
   storage_get example_env
     (filter (\<lambda>(filename, role). filename \<noteq> ''1.bins-0.json'') example_files) ''bins-0'' =
     Inl StorageError \<and>
   storage_get example_env
     (filter (\<lambda>(filename, role). filename \<noteq> ''1.bins-0.json'') example_files) ''bins-1'' =
     Inr (doc 1 7000000 (Targets [] None)) \<and>
   add_targets example_env
     [\<lparr>t_path = ''a.txt'', t_info = (3, [(''sha256'', ''ab'')])\<rparr>,
      \<lparr>t_path = ''b.txt'', t_info = (5, [(''sha256'', ''cd'')])\<rparr>]
     \<lparr>files = filter (\<lambda>(filename, role). filename \<noteq> ''1.bins-0.json'') example_files, ticks = 0\<rparr> =
   (Inl StorageError,
    \<lparr>files = filter (\<lambda>(filename, role). filename \<noteq> ''1.bins-0.json'') example_files, ticks = 0\<rparr>)"
  by (simp add: run_defs)

text \<open>
  Claim C4, amended. A bin's cycle that raises ends \<^verbatim>\<open>add_targets\<close> with that exception:
  no result is returned, the failing bin has written nothing, the bins grouped after it are
  not processed, and the bins grouped before it, one file each, stay written.
\<close>

theorem add_targets_raises_at_failing_bin:
  assumes "storage_get env (files w) BIN = Inr bin"
    and "delegations_succinct_roles bin = Inr sr"
    and "group_targets env sr targets [] = Inr (before @ (bins_name, target_files) # after)"
    and "add_targets_loop env before [] w = (Inr processed, w1)"
    and "add_targets_bin env bins_name target_files w1 = (Inl e, w2)"
  shows "add_targets env targets w = (Inl e, w2) \<and> files w2 = files w1 \<and>
         (\<exists>written. files w1 = written @ files w \<and> length written = length before)"
proof -
  have "add_targets_loop env (before @ (bins_name, target_files) # after) [] w = (Inl e, w2)"
    using assms(4,5) by (simp add: add_targets_loop_append and_then_def)
  with assms(1-3) have "add_targets env targets w = (Inl e, w2)"
    by (simp add: add_targets_def and_then_def load_def lift_def)
  moreover have "files w2 = files w1"
    using assms(5) by (rule add_targets_bin_Inl_files)
  moreover have "\<exists>written. files w1 = written @ files w \<and> length written = length before"
    using add_targets_loop_files[OF assms(4)] by blast
  ultimately show ?thesis by blast
qed

theorem add_targets_raises_at_failing_bin_witness:
  "add_targets example_env
     [\<lparr>t_path = ''a.txt'', t_info = (3, [(''sha256'', ''ab'')])\<rparr>,
      \<lparr>t_path = ''b.txt'', t_info = (5, [(''sha256'', ''cd'')])\<rparr>]
     \<lparr>files = filter (\<lambda>(filename, role). filename \<noteq> ''1.bins-1.json'') example_files, ticks = 0\<rparr> =
   (Inl StorageError,
    \<lparr>files =
       (''2.bins-0.json'',
          signed_doc 2 86405000000
            (Targets [(''a.txt'', \<lparr>tf_path = ''a.txt'', tf_length = 3, tf_hashes = [(''sha256'', ''ab'')]\<rparr>)]
               None)) #
       filter (\<lambda>(filename, role). filename \<noteq> ''1.bins-1.json'') example_files,
     ticks = 1\<rparr>)"
proof -
  let ?fs = "filter (\<lambda>(filename, role). filename \<noteq> ''1.bins-1.json'') example_files"
  let ?w = "\<lparr>files = ?fs, ticks = 0\<rparr>"
  let ?sr = "\<lparr>bit_length = 1, name_prefix = ''bins''\<rparr>"
  let ?bin = "doc 1 7000000 (Targets [] (Some \<lparr>succinct_roles = Some ?sr\<rparr>))"
  let ?ta = "\<lparr>tf_path = ''a.txt'', tf_length = 3, tf_hashes = [(''sha256'', ''ab'')]\<rparr>"
  let ?tb = "\<lparr>tf_path = ''b.txt'', tf_length = 5, tf_hashes = [(''sha256'', ''cd'')]\<rparr>"
  let ?targets = "[\<lparr>t_path = ''a.txt'', t_info = (3, [(''sha256'', ''ab'')])\<rparr>,
      \<lparr>t_path = ''b.txt'', t_info = (5, [(''sha256'', ''cd'')])\<rparr>]"
  let ?w1 = "\<lparr>files = (''2.bins-0.json'', signed_doc 2 86405000000 (Targets [(''a.txt'', ?ta)] None)) # ?fs,
              ticks = 1\<rparr>"
  have 1: "storage_get example_env (files ?w) BIN = Inr ?bin"
    by (simp add: run_defs)
  have 2: "delegations_succinct_roles ?bin = Inr (Some ?sr)"
    by (simp add: run_defs)
  have 3: "group_targets example_env (Some ?sr) ?targets [] =
      Inr ([(''bins-0'', [?ta])] @ (''bins-1'', [?tb]) # [])"
    by (simp add: run_defs)
  have 4: "add_targets_loop example_env [(''bins-0'', [?ta])] [] ?w = (Inr [(''bins-0'', 2)], ?w1)"
    by (simp add: run_defs)
  have 5: "add_targets_bin example_env ''bins-1'' [?tb] ?w1 = (Inl StorageError, ?w1)"
    by (simp add: run_defs)
  from add_targets_raises_at_failing_bin[OF 1 2 3 4 5]
  show ?thesis by simp
qed

subsection \<open>Signing\<close>

lemma set_update_subset: "set (AList.update k v al) \<subseteq> insert (k, v) (set al)"
  by (induct al) auto

lemma sign_keys_key_ids:
  "sign_keys env keys role = Inr role' \<Longrightarrow>
     fst ` set (signatures role') = fst ` set (signatures role) \<union> key_id ` set keys"
proof (induction keys arbitrary: role)
  case Nil
  then show ?case by simp
next
  case (Cons k keys)
  from Cons.prems obtain s where
    s: "signer_sign env k (signed role) = Some s" and
    r: "sign_keys env keys
          (role\<lparr>signatures :=
             AList.update (key_id k) \<lparr>sig_keyid = key_id k, sig_value = s\<rparr> (signatures role)\<rparr>) =
        Inr role'"
    by (auto split: option.splits)
  from Cons.IH[OF r] show ?case by (auto simp: dom_update)
qed

lemma sign_keys_distinct:
  "sign_keys env keys role = Inr role' \<Longrightarrow> distinct (map fst (signatures role)) \<Longrightarrow>
     distinct (map fst (signatures role'))"
proof (induction keys arbitrary: role)
  case Nil
  then show ?case by simp
next
  case (Cons k keys)
  from Cons.prems(1) obtain s where
    r: "sign_keys env keys
          (role\<lparr>signatures :=
             AList.update (key_id k) \<lparr>sig_keyid = key_id k, sig_value = s\<rparr> (signatures role)\<rparr>) =
        Inr role'"
    by (auto split: option.splits)
  from Cons.IH[OF r] Cons.prems(2) show ?case by (simp add: distinct_update)
qed

lemma sign_keys_fresh:
  "sign_keys env keys role = Inr role' \<Longrightarrow> (kid, sg) \<in> set (signatures role') \<Longrightarrow>
     (kid, sg) \<in> set (signatures role) \<or>
     (sig_keyid sg = kid \<and>
      (\<exists>k\<in>set keys. key_id k = kid \<and> signer_sign env k (signed role) = Some (sig_value sg)))"
proof (induction keys arbitrary: role)
  case Nil
  then show ?case by simp
next
  case (Cons k keys)
  let ?role = "\<lambda>s. role\<lparr>signatures :=
             AList.update (key_id k) \<lparr>sig_keyid = key_id k, sig_value = s\<rparr> (signatures role)\<rparr>"
  from Cons.prems(1) obtain s where
    s: "signer_sign env k (signed role) = Some s" and
    r: "sign_keys env keys (?role s) = Inr role'"
    by (auto split: option.splits)
  from Cons.IH[OF r Cons.prems(2)]
  consider "(kid, sg) \<in> set (signatures (?role s))"
    | "sig_keyid sg = kid \<and>
       (\<exists>k\<in>set keys. key_id k = kid \<and> signer_sign env k (signed (?role s)) = Some (sig_value sg))"
    by blast
  then show ?case
  proof cases
    case 1
    then have "(kid, sg) = (key_id k, \<lparr>sig_keyid = key_id k, sig_value = s\<rparr>) \<or>
        (kid, sg) \<in> set (signatures role)"
      using set_update_subset[of "key_id k" "\<lparr>sig_keyid = key_id k, sig_value = s\<rparr>" "signatures role"]
      by auto
    then show ?thesis using s by auto
  next
    case 2
    then show ?thesis by auto
  qed
qed

lemma sign_no_keys:
  "sign env role role_name w = (Inr role', w') \<Longrightarrow> keyvault_get env role_name = Inr [] \<Longrightarrow>
     signatures role' = []"
  by (auto simp: sign_Inr_iff)

text \<open>
  Claim C8. \<^verbatim>\<open>_sign\<close> does not look at the signatures the document had. When it returns,
  the state is as it was, the signed part is untouched, and the signatures are keyed by
  distinct key ids, exactly the ids of the keys the key vault returned for the role (one
  signature per key when the keys' ids differ), each signature made by such a key over the
  signed part. With no keys it returns the document
  with no signatures, and each caller goes on to persist that unsigned document.
\<close>

theorem sign_replaces_signatures:
  "sign env (role\<lparr>signatures := previous\<rparr>) role_name w = sign env role role_name w \<and>
   (sign env role role_name w = (Inr role', w') \<longrightarrow>
      w' = w \<and> signed role' = signed role \<and>
      (\<exists>keys. keyvault_get env role_name = Inr keys \<and>
         distinct (map fst (signatures role')) \<and>
         fst ` set (signatures role') = key_id ` set keys \<and>
         (distinct (map key_id keys) \<longrightarrow> length (signatures role') = length keys) \<and>
         (\<forall>(kid, sg)\<in>set (signatures role').
            sig_keyid sg = kid \<and>
            (\<exists>k\<in>set keys. key_id k = kid \<and>
               signer_sign env k (signed role) = Some (sig_value sg))))) \<and>
   (keyvault_get env role_name = Inr [] \<longrightarrow>
      sign env role role_name w = (Inr (role\<lparr>signatures := []\<rparr>), w)) \<and>
   (keyvault_get env Timestamp_type = Inr [] \<and>
    update_timestamp env snapshot_version w = (Inr timestamp, w') \<longrightarrow>
      signatures timestamp = [] \<and> files w' = (''timestamp.json'', timestamp) # files w) \<and>
   (keyvault_get env Snapshot_type = Inr [] \<and>
    update_snapshot env targets_meta w = (Inr v, w') \<longrightarrow>
      (\<exists>snapshot. signatures snapshot = [] \<and>
         files w' = (persist_filename snapshot Snapshot_type, snapshot) # files w)) \<and>
   (keyvault_get env BINS = Inr [] \<and>
    add_targets_bin env bins_name target_files w = (Inr m, w') \<longrightarrow>
      (\<exists>bins_role. signatures bins_role = [] \<and>
         files w' = (persist_filename bins_role bins_name, bins_role) # files w)) \<and>
   (keyvault_get env BINS = Inr [] \<and>
    bump_bins_role env bins_name w = (Inr (Some m), w') \<longrightarrow>
      (\<exists>bins_role. signatures bins_role = [] \<and>
         files w' = (persist_filename bins_role bins_name, bins_role) # files w))"
proof (intro conjI impI)
  show "sign env (role\<lparr>signatures := previous\<rparr>) role_name w = sign env role role_name w"
    by (simp add: sign_def)
next
  assume a: "sign env role role_name w = (Inr role', w')"
  then obtain keys where
    k: "keyvault_get env role_name = Inr keys" and
    s: "sign_keys env keys (role\<lparr>signatures := []\<rparr>) = Inr role'"
    by (auto simp: sign_Inr_iff)
  show "w' = w" using a by (simp add: sign_Inr_iff)
  show "signed role' = signed role" using a by (simp add: sign_signed)
  have d: "distinct (map fst (signatures role'))"
    using sign_keys_distinct[OF s] by simp
  have i: "fst ` set (signatures role') = key_id ` set keys"
    using sign_keys_key_ids[OF s] by simp
  have f: "\<forall>(kid, sg)\<in>set (signatures role').
            sig_keyid sg = kid \<and>
            (\<exists>k\<in>set keys. key_id k = kid \<and>
               signer_sign env k (signed role) = Some (sig_value sg))"
    using sign_keys_fresh[OF s] by auto
  have n: "distinct (map key_id keys) \<longrightarrow> length (signatures role') = length keys"
  proof
    assume "distinct (map key_id keys)"
    then have "length keys = card (key_id ` set keys)"
      by (metis distinct_card length_map set_map)
    also have "\<dots> = card (set (map fst (signatures role')))"
      using i by simp
    also have "\<dots> = length (signatures role')"
      using d by (metis distinct_card length_map)
    finally show "length (signatures role') = length keys" by simp
  qed
  from k d i n f show "\<exists>keys. keyvault_get env role_name = Inr keys \<and>
         distinct (map fst (signatures role')) \<and>
         fst ` set (signatures role') = key_id ` set keys \<and>
         (distinct (map key_id keys) \<longrightarrow> length (signatures role') = length keys) \<and>
         (\<forall>(kid, sg)\<in>set (signatures role').
            sig_keyid sg = kid \<and>
            (\<exists>k\<in>set keys. key_id k = kid \<and>
               signer_sign env k (signed role) = Some (sig_value sg)))"
    by blast
next
  assume "keyvault_get env role_name = Inr []"
  then show "sign env role role_name w = (Inr (role\<lparr>signatures := []\<rparr>), w)"
    by (simp add: sign_def and_then_def lift_def)
next
  assume a: "keyvault_get env Timestamp_type = Inr [] \<and>
    update_timestamp env snapshot_version w = (Inr timestamp, w')"
  then obtain b w1 w2 where "sign env b Timestamp_type w1 = (Inr timestamp, w2)"
    by (auto simp: update_timestamp_def and_then_Inr_iff ret_iff)
  with a show "signatures timestamp = []" by (auto dest: sign_no_keys)
  from a update_timestamp_Inr[of env snapshot_version w timestamp w']
  show "files w' = (''timestamp.json'', timestamp) # files w" by blast
next
  assume a: "keyvault_get env Snapshot_type = Inr [] \<and>
    update_snapshot env targets_meta w = (Inr v, w')"
  then obtain b w1 snapshot w2 where
    s: "sign env b Snapshot_type w1 = (Inr snapshot, w2)" and
    p: "persist env snapshot Snapshot_type w2 = (Inr (), w')" and
    w: "files w1 = files w"
    by (auto simp: update_snapshot_def and_then_Inr_iff ret_iff load_iff lift_Inr_iff
        bump_expiry_Inr_iff)
  from s a have "signatures snapshot = []" by (auto dest: sign_no_keys)
  moreover from s p w have "files w' = (persist_filename snapshot Snapshot_type, snapshot) # files w"
    by (auto simp: persist_Inr_iff sign_Inr_iff)
  ultimately show "\<exists>snapshot. signatures snapshot = [] \<and>
         files w' = (persist_filename snapshot Snapshot_type, snapshot) # files w"
    by blast
next
  assume a: "keyvault_get env BINS = Inr [] \<and>
    add_targets_bin env bins_name target_files w = (Inr m, w')"
  then obtain b w1 bins_role w2 where
    s: "sign env b BINS w1 = (Inr bins_role, w2)" and
    p: "persist env bins_role bins_name w2 = (Inr (), w')" and
    w: "files w1 = files w"
    by (auto simp: add_targets_bin_def and_then_Inr_iff ret_iff load_iff lift_Inr_iff
        bump_expiry_Inr_iff)
  from s a have "signatures bins_role = []" by (auto dest: sign_no_keys)
  moreover from s p w have "files w' = (persist_filename bins_role bins_name, bins_role) # files w"
    by (auto simp: persist_Inr_iff sign_Inr_iff)
  ultimately show "\<exists>bins_role. signatures bins_role = [] \<and>
         files w' = (persist_filename bins_role bins_name, bins_role) # files w"
    by blast
next
  assume a: "keyvault_get env BINS = Inr [] \<and>
    bump_bins_role env bins_name w = (Inr (Some m), w')"
  then obtain b w1 bins_role w2 where
    s: "sign env b BINS w1 = (Inr bins_role, w2)" and
    p: "persist env bins_role bins_name w2 = (Inr (), w')" and
    w: "files w1 = files w"
    by (auto simp: bump_bins_role_def and_then_Inr_iff ret_iff load_iff near_expiry_iff
        bump_expiry_Inr_iff split: if_splits)
  from s a have "signatures bins_role = []" by (auto dest: sign_no_keys)
  moreover from s p w have "files w' = (persist_filename bins_role bins_name, bins_role) # files w"
    by (auto simp: persist_Inr_iff sign_Inr_iff)
  ultimately show "\<exists>bins_role. signatures bins_role = [] \<and>
         files w' = (persist_filename bins_role bins_name, bins_role) # files w"
    by blast
qed

theorem sign_replaces_signatures_witness:
  "sign example_env
     ((doc 1 7 Root)\<lparr>signatures := [(''old'', \<lparr>sig_keyid = ''old'', sig_value = ''x''\<rparr>)]\<rparr>)
     ''snapshot'' example_world = (Inr (signed_doc 1 7 Root), example_world) \<and>
   fst ` set (signatures (signed_doc 1 7 Root)) = key_id ` set [example_key] \<and>
   keyvault_get (example_env\<lparr>keyvault_get := \<lambda>role_name. Inr []\<rparr>) Timestamp_type = Inr [] \<and>
   update_timestamp (example_env\<lparr>keyvault_get := \<lambda>role_name. Inr []\<rparr>) 5 example_world =
     (Inr (doc 2 86405000000 (Timestamp \<lparr>mf_version = 5, mf_length = None, mf_hashes = None\<rparr>)),
      \<lparr>files =
         (''timestamp.json'',
            doc 2 86405000000 (Timestamp \<lparr>mf_version = 5, mf_length = None, mf_hashes = None\<rparr>)) #
         example_files,
       ticks = 1\<rparr>) \<and>
   signatures (doc 2 86405000000 (Timestamp \<lparr>mf_version = 5, mf_length = None, mf_hashes = None\<rparr>)) = []"
proof -
  let ?old = "(doc 1 7 Root)\<lparr>signatures := [(''old'', \<lparr>sig_keyid = ''old'', sig_value = ''x''\<rparr>)]\<rparr>"
  let ?env = "example_env\<lparr>keyvault_get := \<lambda>role_name. Inr []\<rparr>"
  let ?ts = "doc 2 86405000000 (Timestamp \<lparr>mf_version = 5, mf_length = None, mf_hashes = None\<rparr>)"
  let ?w' = "\<lparr>files = (''timestamp.json'', ?ts) # example_files, ticks = 1\<rparr>"
  have s: "sign example_env ?old ''snapshot'' example_world = (Inr (signed_doc 1 7 Root), example_world)"
    by (simp add: run_defs)
  have k: "keyvault_get example_env ''snapshot'' = Inr [example_key]"
    by (simp add: example_env_def)
  have n: "keyvault_get ?env Timestamp_type = Inr []"
    by simp
  have u: "update_timestamp ?env 5 example_world = (Inr ?ts, ?w')"
    by (simp add: run_defs)
  from sign_replaces_signatures
    [where env = example_env and role = ?old and role_name = "''snapshot''" and w = example_world
       and role' = "signed_doc 1 7 Root" and w' = example_world and previous = "[]"
       and snapshot_version = 0 and timestamp = "doc 1 0 Root" and targets_meta = "[]" and v = 0
       and bins_name = "''a''" and target_files = "[]" and m = "(''a'', 0)"] s k
  have a: "fst ` set (signatures (signed_doc 1 7 Root)) = key_id ` set [example_key]"
    by auto
  from sign_replaces_signatures
    [where env = ?env and role = ?old and role_name = "''snapshot''" and w = example_world
       and role' = "signed_doc 1 7 Root" and w' = ?w' and previous = "[]"
       and snapshot_version = 5 and timestamp = ?ts and targets_meta = "[]" and v = 0
       and bins_name = "''a''" and target_files = "[]" and m = "(''a'', 0)"] n u
  have b: "signatures ?ts = []"
    by blast
  from s a n u b show ?thesis by blast
qed

subsection \<open>The bins sweep, run twice\<close>

lemma latest_get_read_back: "read_back example_env"
  by (simp add: read_back_def example_env_def latest_get_def)

lemma bumped_outside_window:
  assumes "hours_before_expire env < days * 24"
    and "expires (signed role) = replace_microsecond0 now + days * 86400000000"
  shows "outside_window env now role"
proof -
  have "0 \<le> now mod 1000000" and "now mod 1000000 < 1000000" by simp_all
  with assms show ?thesis
    unfolding outside_window_def replace_microsecond0_def by linarith
qed

text \<open>The file names the sweep writes are not the name of the top-level \<^verbatim>\<open>bin\<close> document:
  the name of a bin ends in a hexadecimal digit, \<^verbatim>\<open>snapshot\<close> in t and \<^verbatim>\<open>timestamp\<close> in p.\<close>

lemma persist_filename_shape:
  "\<exists>stem. persist_filename role role_name = stem @ ''.json'' \<and>
      (role_name \<noteq> [] \<longrightarrow> last stem = last role_name)"
proof (cases "role_name \<noteq> Timestamp_type \<and>
    \<not> startswith (role_name @ ''.json'') (str_int (version (signed role)) @ ''.'')")
  case True
  then have "persist_filename role role_name =
      (str_int (version (signed role)) @ ''.'' @ role_name) @ ''.json''"
    by (simp add: persist_filename_def)
  moreover have "role_name \<noteq> [] \<longrightarrow>
      last (str_int (version (signed role)) @ ''.'' @ role_name) = last role_name"
    by simp
  ultimately show ?thesis by blast
next
  case False
  then have "persist_filename role role_name = role_name @ ''.json''"
    by (auto simp: persist_filename_def Let_def)
  then show ?thesis by blast
qed

lemma bin_json_unprefixed: "\<not> startswith ''bin.json'' (str_int v @ ''.'')"
proof
  assume "startswith ''bin.json'' (str_int v @ ''.'')"
  then obtain t where "''bin.json'' = str_int v @ ''.'' @ t"
    unfolding startswith_iff by auto
  then have "hd ''bin.json'' = hd (str_int v @ ''.'' @ t)"
    by (rule arg_cong)
  then have "hd (str_int v) = CHR ''b''"
    using str_int_nonempty[of v] by simp
  then show False using hd_str_int[of v] by simp
qed

lemma not_the_bin_file:
  assumes "role_name \<noteq> []" and "last role_name \<noteq> CHR ''n''"
  shows "persist_filename role role_name \<noteq> persist_filename role BIN"
proof
  assume e: "persist_filename role role_name = persist_filename role BIN"
  obtain stem where s: "persist_filename role role_name = stem @ ''.json''"
    and l: "last stem = last role_name"
    using persist_filename_shape[of role role_name] assms(1) by blast
  have "persist_filename role BIN = (str_int (version (signed role)) @ ''.bin'') @ ''.json''"
    using bin_json_unprefixed by (simp add: persist_filename_def BIN_def Timestamp_type_def)
  with e s have "stem = str_int (version (signed role)) @ ''.bin''"
    by (simp del: append_assoc)
  then have "last stem = CHR ''n''" by simp
  with l assms(2) show False by simp
qed

lemma digit_char_hex: "m < 16 \<Longrightarrow> digit_char m \<noteq> CHR ''n''"
proof -
  assume "m < 16"
  then have "m = 0 \<or> m = 1 \<or> m = 2 \<or> m = 3 \<or> m = 4 \<or> m = 5 \<or> m = 6 \<or> m = 7 \<or>
      m = 8 \<or> m = 9 \<or> m = 10 \<or> m = 11 \<or> m = 12 \<or> m = 13 \<or> m = 14 \<or> m = 15"
    by arith
  then show ?thesis by (auto simp: digit_char_def)
qed

lemma digits16_last: "digits16 n \<noteq> [] \<and> last (digits16 n) = digit_char (n mod 16)"
  by (subst (1 2) digits16.simps) simp

lemma bin_name_last: "bin_name sr i \<noteq> [] \<and> last (bin_name sr i) \<noteq> CHR ''n''"
proof -
  have "last (bin_name sr i) = digit_char (i mod 16)"
    using digits16_last[of i] by (simp add: bin_name_def hex_pad_def)
  moreover have "digit_char (i mod 16) \<noteq> CHR ''n''"
    by (rule digit_char_hex) simp
  ultimately show ?thesis by (simp add: bin_name_def)
qed

lemma get_roles_last:
  "r \<in> set (get_roles sr) \<Longrightarrow> r \<noteq> [] \<and> last r \<noteq> CHR ''n''"
  using bin_name_last by (auto simp: get_roles_def)

lemma get_roles_nonempty: "get_roles sr \<noteq> []"
  by (simp add: get_roles_def number_of_bins_def)

text \<open>A write of a document outside the window keeps every role outside the window, and a
  write for a role other than \<^verbatim>\<open>bin\<close> keeps the \<^verbatim>\<open>bin\<close> document.\<close>

lemma write_keeps_outside_window:
  assumes "read_back env" and "all_outside_window env now fs roles"
    and "outside_window env now role"
  shows "all_outside_window env now ((persist_filename role role_name, role) # fs)
           (insert role_name roles)"
  using assms unfolding all_outside_window_def read_back_def by auto

lemma write_keeps_bin:
  assumes "read_back env" and "role_name \<noteq> []" and "last role_name \<noteq> CHR ''n''"
  shows "storage_get env ((persist_filename role role_name, role) # fs) BIN = storage_get env fs BIN"
  using assms not_the_bin_file[of role_name role] unfolding read_back_def by auto

lemma all_outside_window_subset:
  "all_outside_window env now fs roles \<Longrightarrow> roles' \<subseteq> roles \<Longrightarrow>
     all_outside_window env now fs roles'"
  unfolding all_outside_window_def by blast

text \<open>One step of the sweep, with the clock standing still: whether it bumps the bin or not,
  the bin then loads a document outside the window, and so does every role that did before.\<close>

lemma bump_bins_role_outside_window:
  assumes frozen: "\<forall>n. clock env n = now"
    and intervals: "\<forall>name\<in>{''bins_EXPIRATION'', ''snapshot_EXPIRATION'', ''timestamp_EXPIRATION''}.
                      \<forall>days. get_fresh_int env name = Inr days \<longrightarrow>
                        hours_before_expire env < days * 24"
    and rb: "read_back env"
    and step: "bump_bins_role env bins_name w = (Inr m, w')"
    and inv: "all_outside_window env now (files w) roles"
  shows "all_outside_window env now (files w') (insert bins_name roles) \<and>
         (bins_name \<noteq> [] \<and> last bins_name \<noteq> CHR ''n'' \<longrightarrow>
            storage_get env (files w') BIN = storage_get env (files w) BIN) \<and>
         timedelta_hours (hours_before_expire env) = Inr (hours_before_expire env * 3600000000)"
proof -
  have th: "timedelta_hours (hours_before_expire env) = Inr (hours_before_expire env * 3600000000)"
    using step
    by (auto simp: bump_bins_role_def and_then_Inr_iff near_expiry_iff split: if_splits)
  show ?thesis
  proof (cases m)
    case None
    from bump_bins_role_None[OF step[unfolded None]] obtain old where
      o: "storage_get env (files w) bins_name = Inr old"
         "\<not> expires (signed old) - clock env (ticks w) < hours_before_expire env * 3600000000"
         "files w' = files w"
      by blast
    from o(2) frozen have "outside_window env now old"
      by (simp add: outside_window_def)
    with o(1) inv have "all_outside_window env now (files w) (insert bins_name roles)"
      unfolding all_outside_window_def by auto
    with o(3) th show ?thesis by simp
  next
    case (Some x)
    from bump_bins_role_Some[OF step[unfolded Some]] obtain old new days where
      "storage_get env (files w) bins_name = Inr old" and
      n: "get_fresh_int env ''bins_EXPIRATION'' = Inr days"
         "signed new = (signed old)
             \<lparr>expires := replace_microsecond0 (clock env (Suc (ticks w))) + days * 86400000000,
              version := version (signed old) + 1\<rparr>"
         "files w' = (persist_filename new bins_name, new) # files w"
      by blast
    from n(2) frozen have "expires (signed new) = replace_microsecond0 now + days * 86400000000"
      by simp
    moreover from n(1) intervals have "hours_before_expire env < days * 24" by blast
    ultimately have "outside_window env now new" by (rule bumped_outside_window[rotated])
    from write_keeps_outside_window[OF rb inv this, of bins_name]
    have "all_outside_window env now (files w') (insert bins_name roles)"
      by (simp add: n(3))
    moreover have "bins_name \<noteq> [] \<and> last bins_name \<noteq> CHR ''n'' \<longrightarrow>
        storage_get env (files w') BIN = storage_get env (files w) BIN"
      using write_keeps_bin[OF rb] by (simp add: n(3))
    ultimately show ?thesis using th by simp
  qed
qed

lemma bump_bins_loop_outside_window:
  assumes frozen: "\<forall>n. clock env n = now"
    and intervals: "\<forall>name\<in>{''bins_EXPIRATION'', ''snapshot_EXPIRATION'', ''timestamp_EXPIRATION''}.
                      \<forall>days. get_fresh_int env name = Inr days \<longrightarrow>
                        hours_before_expire env < days * 24"
    and rb: "read_back env"
  shows "bump_bins_loop env names targets_meta w = (Inr result, w') \<Longrightarrow>
         all_outside_window env now (files w) roles \<Longrightarrow>
         \<forall>r\<in>set names. r \<noteq> [] \<and> last r \<noteq> CHR ''n'' \<Longrightarrow>
         all_outside_window env now (files w') (roles \<union> set names) \<and>
         storage_get env (files w') BIN = storage_get env (files w) BIN"
proof (induction names arbitrary: targets_meta w roles)
  case Nil
  then show ?case by (simp add: ret_def)
next
  case (Cons bins_name rest)
  from Cons.prems(1) obtain m w1 where
    s: "bump_bins_role env bins_name w = (Inr m, w1)" and
    l: "bump_bins_loop env rest
          (case m of None \<Rightarrow> targets_meta | Some x \<Rightarrow> targets_meta @ [x]) w1 = (Inr result, w')"
    by (auto simp: and_then_Inr_iff)
  from bump_bins_role_outside_window[OF frozen intervals rb s Cons.prems(2)] Cons.prems(3)
  have 1: "all_outside_window env now (files w1) (insert bins_name roles)"
    and 2: "storage_get env (files w1) BIN = storage_get env (files w) BIN"
    by simp_all
  from Cons.prems(3) have 3: "\<forall>r\<in>set rest. r \<noteq> [] \<and> last r \<noteq> CHR ''n''" by simp
  from Cons.IH[OF l 1 3] 2 show ?case by simp
qed

text \<open>The propagation that follows writes a Snapshot and a Timestamp outside the window, and
  neither under the name of the \<^verbatim>\<open>bin\<close> document.\<close>

lemma propagate_outside_window:
  assumes frozen: "\<forall>n. clock env n = now"
    and intervals: "\<forall>name\<in>{''bins_EXPIRATION'', ''snapshot_EXPIRATION'', ''timestamp_EXPIRATION''}.
                      \<forall>days. get_fresh_int env name = Inr days \<longrightarrow>
                        hours_before_expire env < days * 24"
    and rb: "read_back env"
    and run: "and_then (update_snapshot env targets_meta) (update_timestamp env) w = (Inr timestamp, w')"
    and inv: "all_outside_window env now (files w) roles"
  shows "all_outside_window env now (files w') roles \<and>
         storage_get env (files w') BIN = storage_get env (files w) BIN"
proof -
  from run obtain v w1 where
    s: "update_snapshot env targets_meta w = (Inr v, w1)" and
    t: "update_timestamp env v w1 = (Inr timestamp, w')"
    by (auto simp: and_then_Inr_iff)
  from update_snapshot_Inr[OF s] obtain loaded mid snapshot days where
    "storage_get env (files w) Snapshot_type = Inr loaded" "set_metas targets_meta loaded = Inr mid" and
    h: "get_fresh_int env ''snapshot_EXPIRATION'' = Inr days"
       "signed snapshot = (signed mid)
             \<lparr>expires := replace_microsecond0 (clock env (ticks w)) + days * 86400000000,
              version := version (signed mid) + 1\<rparr>"
       "files w1 = (persist_filename snapshot Snapshot_type, snapshot) # files w"
    by blast
  from update_timestamp_Inr[OF t] obtain old mf days' where
    "storage_get env (files w1) Timestamp_type = Inr old" "MetaFile_new v = Inr mf" and
    k: "get_fresh_int env ''timestamp_EXPIRATION'' = Inr days'"
       "signed timestamp = (signed (set_snapshot_meta old mf))
             \<lparr>version := version (signed old) + 1,
              expires := replace_microsecond0 (clock env (ticks w1)) + days' * 86400000000\<rparr>"
       "files w' = (''timestamp.json'', timestamp) # files w1"
    by blast
  have "expires (signed snapshot) = replace_microsecond0 now + days * 86400000000"
    using h(2) frozen by simp
  moreover from h(1) intervals have "hours_before_expire env < days * 24" by blast
  ultimately have so: "outside_window env now snapshot" by (rule bumped_outside_window[rotated])
  have "expires (signed timestamp) = replace_microsecond0 now + days' * 86400000000"
    using frozen by (subst k(2)) simp
  moreover from k(1) intervals have "hours_before_expire env < days' * 24" by blast
  ultimately have to: "outside_window env now timestamp" by (rule bumped_outside_window[rotated])
  have tf: "''timestamp.json'' = persist_filename timestamp Timestamp_type"
    by (simp add: persist_filename_def Timestamp_type_def)
  from write_keeps_outside_window[OF rb inv so, of Snapshot_type]
  have "all_outside_window env now (files w1) (insert Snapshot_type roles)"
    by (simp add: h(3))
  from write_keeps_outside_window[OF rb this to, of Timestamp_type]
  have "all_outside_window env now (files w') (insert Timestamp_type (insert Snapshot_type roles))"
    by (simp add: k(3) tf)
  then have a: "all_outside_window env now (files w') roles"
    by (rule all_outside_window_subset) auto
  have "storage_get env (files w1) BIN = storage_get env (files w) BIN"
    using write_keeps_bin[OF rb, of Snapshot_type snapshot "files w"]
    by (simp add: h(3) Snapshot_type_def)
  moreover have "storage_get env (files w') BIN = storage_get env (files w1) BIN"
    using write_keeps_bin[OF rb, of Timestamp_type timestamp "files w1"]
    by (simp add: k(3) tf Timestamp_type_def)
  ultimately show ?thesis using a by simp
qed

text \<open>A sweep over bins that all load a document outside the window bumps none of them: it
  reads the clock once per bin and writes nothing.\<close>

lemma bump_bins_loop_nothing_to_do:
  assumes frozen: "\<forall>n. clock env n = now"
    and th: "timedelta_hours (hours_before_expire env) = Inr (hours_before_expire env * 3600000000)"
  shows "all_outside_window env now (files w) (set names) \<Longrightarrow>
         bump_bins_loop env names targets_meta w =
           (Inr targets_meta, w\<lparr>ticks := ticks w + length names\<rparr>)"
proof (induction names arbitrary: w)
  case Nil
  show ?case by (simp add: ret_def)
next
  case (Cons bins_name rest)
  from Cons.prems obtain role where
    r: "storage_get env (files w) bins_name = Inr role" and
    o: "outside_window env now role"
    unfolding all_outside_window_def by auto
  have s: "bump_bins_role env bins_name w = (Inr None, w\<lparr>ticks := Suc (ticks w)\<rparr>)"
    using r o frozen th
    by (simp add: bump_bins_role_def and_then_def load_def near_expiry_def datetime_now_def
        lift_def ret_def outside_window_def)
  have "all_outside_window env now (files (w\<lparr>ticks := Suc (ticks w)\<rparr>)) (set rest)"
    using Cons.prems unfolding all_outside_window_def by simp
  from Cons.IH[OF this] s show ?case
    by (simp add: and_then_def)
qed

lemma bump_bins_loop_threshold:
  "bump_bins_loop env (bins_name # rest) targets_meta w = (Inr result, w') \<Longrightarrow>
     timedelta_hours (hours_before_expire env) = Inr (hours_before_expire env * 3600000000)"
  by (auto simp: and_then_Inr_iff bump_bins_role_def near_expiry_iff load_iff split: if_splits)

text \<open>What a sweep that returned went through: \<^verbatim>\<open>False\<close> means the \<^verbatim>\<open>bin\<close> document could
  not be loaded, \<^verbatim>\<open>True\<close> that the loop and, after a bump, the propagation completed.\<close>

lemma bump_bins_roles_Inr:
  assumes "bump_bins_roles env w = (Inr r, w')"
  shows "(\<not> r \<and> storage_get env (files w) BIN = Inl StorageError \<and> w' = w) \<or>
         (r \<and> (\<exists>bin sr changed w1.
           storage_get env (files w) BIN = Inr bin \<and>
           delegations_succinct_roles bin = Inr (Some sr) \<and>
           bump_bins_loop env (get_roles sr) [] w = (Inr changed, w1) \<and>
           (if changed = [] then w' = w1
            else \<exists>timestamp.
                   and_then (update_snapshot env changed) (update_timestamp env) w1 =
                     (Inr timestamp, w'))))"
proof (cases "storage_get env (files w) BIN")
  case (Inl e)
  with assms show ?thesis
    by (cases e) (auto simp: bump_bins_roles_def load_def)
next
  case (Inr bin)
  with assms have "and_then (lift (delegations_succinct_roles bin)) (\<lambda>bin_succinct_roles.
              and_then (lift (case bin_succinct_roles of
                                None \<Rightarrow> Inl AttributeError
                              | Some sr \<Rightarrow> Inr (get_roles sr))) (\<lambda>roles.
              and_then (bump_bins_loop env roles []) (\<lambda>targets_meta.
              if length targets_meta > 0
              then and_then (and_then (update_snapshot env targets_meta) (update_timestamp env))
                     (\<lambda>timestamp. ret True)
              else ret True))) w = (Inr r, w')"
    by (simp add: bump_bins_roles_def load_def)
  then obtain sr changed w1 where
    "delegations_succinct_roles bin = Inr (Some sr)"
    "bump_bins_loop env (get_roles sr) [] w = (Inr changed, w1)"
    "(if length changed > 0
      then and_then (and_then (update_snapshot env changed) (update_timestamp env))
             (\<lambda>timestamp. ret True)
      else ret True) w1 = (Inr r, w')"
    by (auto simp: and_then_Inr_iff lift_Inr_iff split: option.splits)
  with Inr show ?thesis
    by (cases "changed = []") (auto simp: and_then_Inr_iff ret_iff)
qed

text \<open>
  Claim C7. Let every configured expiration interval exceed the freshness threshold, let the
  clock stand still, and let the storage service read back what was written. If a bins sweep
  has returned, a second sweep right after it returns the same answer and writes nothing: the
  files are those the first sweep left.
\<close>

theorem bump_bins_roles_second_run_idle:
  assumes frozen: "\<forall>n. clock env n = now"
    and intervals: "\<forall>name\<in>{''bins_EXPIRATION'', ''snapshot_EXPIRATION'', ''timestamp_EXPIRATION''}.
                      \<forall>days. get_fresh_int env name = Inr days \<longrightarrow>
                        hours_before_expire env < days * 24"
    and rb: "read_back env"
    and first: "bump_bins_roles env w = (Inr r, w1)"
  shows "\<exists>w2. bump_bins_roles env w1 = (Inr r, w2) \<and> files w2 = files w1"
proof (cases r)
  case False
  with bump_bins_roles_Inr[OF first] have
    "storage_get env (files w) BIN = Inl StorageError" and "w1 = w"
    by simp_all
  then have "bump_bins_roles env w1 = (Inr False, w1)"
    by (simp add: bump_bins_roles_def load_def)
  with False show ?thesis by simp
next
  case True
  with bump_bins_roles_Inr[OF first] obtain bin sr changed wl where
    bin: "storage_get env (files w) BIN = Inr bin" and
    sr: "delegations_succinct_roles bin = Inr (Some sr)" and
    loop: "bump_bins_loop env (get_roles sr) [] w = (Inr changed, wl)" and
    rest: "if changed = [] then w1 = wl
           else \<exists>timestamp.
                  and_then (update_snapshot env changed) (update_timestamp env) wl =
                    (Inr timestamp, w1)"
    by blast
  have names: "\<forall>r\<in>set (get_roles sr). r \<noteq> [] \<and> last r \<noteq> CHR ''n''"
    using get_roles_last by blast
  have "all_outside_window env now (files w) {}"
    by (simp add: all_outside_window_def)
  from bump_bins_loop_outside_window[OF frozen intervals rb loop this names]
  have l: "all_outside_window env now (files wl) (set (get_roles sr))"
    and lb: "storage_get env (files wl) BIN = Inr bin"
    using bin by simp_all
  have after: "all_outside_window env now (files w1) (set (get_roles sr)) \<and>
      storage_get env (files w1) BIN = Inr bin"
  proof (cases "changed = []")
    case True
    with rest l lb show ?thesis by simp
  next
    case False
    with rest obtain timestamp where
      "and_then (update_snapshot env changed) (update_timestamp env) wl = (Inr timestamp, w1)"
      by auto
    from propagate_outside_window[OF frozen intervals rb this l] lb show ?thesis by simp
  qed
  obtain bins_name others where g: "get_roles sr = bins_name # others"
    using get_roles_nonempty[of sr] by (cases "get_roles sr") auto
  from loop[unfolded g] have th:
    "timedelta_hours (hours_before_expire env) = Inr (hours_before_expire env * 3600000000)"
    by (rule bump_bins_loop_threshold)
  from after have
    "bump_bins_loop env (get_roles sr) [] w1 =
       (Inr [], w1\<lparr>ticks := ticks w1 + length (get_roles sr)\<rparr>)"
    by (intro bump_bins_loop_nothing_to_do[OF frozen th]) simp
  with after sr have
    "bump_bins_roles env w1 = (Inr True, w1\<lparr>ticks := ticks w1 + length (get_roles sr)\<rparr>)"
    by (simp add: bump_bins_roles_def load_def and_then_def lift_def ret_def)
  with True show ?thesis by simp
qed

theorem bump_bins_roles_second_run_idle_witness:
  "read_back example_env \<and>
   fst (bump_bins_roles example_env example_world) = Inr True \<and>
   files (snd (bump_bins_roles example_env example_world)) \<noteq> files example_world \<and>
   (\<exists>w2. bump_bins_roles example_env (snd (bump_bins_roles example_env example_world)) =
            (Inr True, w2) \<and>
          files w2 = files (snd (bump_bins_roles example_env example_world)))"
proof -
  have c: "\<forall>n. clock example_env n = 5000123"
    by (simp add: example_env_def)
  have i: "\<forall>name\<in>{''bins_EXPIRATION'', ''snapshot_EXPIRATION'', ''timestamp_EXPIRATION''}.
      \<forall>days. get_fresh_int example_env name = Inr days \<longrightarrow>
        hours_before_expire example_env < days * 24"
    by (simp add: example_env_def)
  have r: "fst (bump_bins_roles example_env example_world) = Inr True"
    by (simp add: run_defs upt_rec)
  have n: "files (snd (bump_bins_roles example_env example_world)) \<noteq> files example_world"
    by (simp add: run_defs upt_rec)
  from r have f: "bump_bins_roles example_env example_world =
      (Inr True, snd (bump_bins_roles example_env example_world))"
    by (metis prod.collapse)
  from bump_bins_roles_second_run_idle[OF c i latest_get_read_back f] r n latest_get_read_back
  show ?thesis by blast
qed

end
